theory Spec2Isabelle
  imports Main
begin

section \<open>JavaScript values and text\<close>

text \<open>
  The harness (the orchestrator script and \<^verbatim>\<open>playwright/preflight.mjs\<close>) inspects
  the values it catches only through \<^verbatim>\<open>error?.stack\<close>, \<^verbatim>\<open>error?.message\<close>,
  \<^verbatim>\<open>error?.code\<close>, truthiness and \<^verbatim>\<open>String(...)\<close>. A value is therefore modelled by
  what these observations return.

  \<^item> \<open>JPrim t s\<close> stands for any other primitive (number, bigint, symbol): \<open>t\<close> is its
    truthiness and \<open>s\<close> the text \<^verbatim>\<open>String\<close> gives for it.
  \<^item> \<open>JObj stack message code str\<close> is an object with its three properties
    (\<open>JUndefined\<close> when absent) and the outcome of converting it to a string:
    \<open>Some s\<close> when \<^verbatim>\<open>String(obj)\<close> returns \<open>s\<close> (\<^verbatim>\<open>"[object Object]"\<close> for a plain
    object), \<open>None\<close> when the conversion throws a \<^verbatim>\<open>TypeError\<close>, as it does for
    \<^verbatim>\<open>Object.create(null)\<close> or an object whose \<^verbatim>\<open>toString\<close> throws.

  Reading a property is taken not to throw (no getters, no proxies). Text is a
  \<open>string\<close>: a list of code units below 256.
\<close>

datatype jsval =
    JUndefined
  | JNull
  | JBool bool
  | JStr string
  | JPrim bool string
  | JObj jsval jsval jsval "string option"

datatype exn = TypeError

fun truthy :: "jsval \<Rightarrow> bool" where
  "truthy JUndefined = False"
| "truthy JNull = False"
| "truthy (JBool b) = b"
| "truthy (JStr s) = (s \<noteq> [])"
| "truthy (JPrim t s) = t"
| "truthy (JObj st m c r) = True"

text \<open>\<^verbatim>\<open>v?.stack\<close>, \<^verbatim>\<open>v?.message\<close>, \<^verbatim>\<open>v?.code\<close>: undefined on null, undefined and primitives.\<close>

fun get_stack :: "jsval \<Rightarrow> jsval" where
  "get_stack (JObj st m c r) = st"
| "get_stack v = JUndefined"

fun get_message :: "jsval \<Rightarrow> jsval" where
  "get_message (JObj st m c r) = m"
| "get_message v = JUndefined"

fun get_code :: "jsval \<Rightarrow> jsval" where
  "get_code (JObj st m c r) = c"
| "get_code v = JUndefined"

text \<open>\<^verbatim>\<open>a || b\<close>\<close>

definition js_or :: "jsval \<Rightarrow> jsval \<Rightarrow> jsval" where
  "js_or a b = (if truthy a then a else b)"

text \<open>\<^verbatim>\<open>String(v)\<close>\<close>

fun String :: "jsval \<Rightarrow> exn + string" where
  "String JUndefined = Inr ''undefined''"
| "String JNull = Inr ''null''"
| "String (JBool b) = Inr (if b then ''true'' else ''false'')"
| "String (JStr s) = Inr s"
| "String (JPrim t s) = Inr s"
| "String (JObj st m c r) = (case r of Some s \<Rightarrow> Inr s | None \<Rightarrow> Inl TypeError)"

subsection \<open>Regular expressions of the classifiers\<close>

text \<open>
  Every regular expression of the source has the flag \<^verbatim>\<open>i\<close> (and not \<^verbatim>\<open>u\<close>) and is an
  alternation of literal texts, with one alternative of the form \<^verbatim>\<open>A.*B\<close>. Under
  \<^verbatim>\<open>i\<close> two code units match when their canonical (upper case) forms agree; a
  code unit outside ASCII never canonicalises to an ASCII one, so for the ASCII
  patterns used here only \<^verbatim>\<open>a\<close>..\<^verbatim>\<open>z\<close> are folded.
\<close>

definition canonicalize :: "char \<Rightarrow> char" where
  "canonicalize c =
     (case map_of (zip ''abcdefghijklmnopqrstuvwxyz'' ''ABCDEFGHIJKLMNOPQRSTUVWXYZ'') c of
        Some u \<Rightarrow> u
      | None \<Rightarrow> c)"

text \<open>The pattern matches at the very start of the text.\<close>

fun prefix_ci :: "string \<Rightarrow> string \<Rightarrow> bool" where
  "prefix_ci [] t = True"
| "prefix_ci (p # ps) [] = False"
| "prefix_ci (p # ps) (c # cs) = (canonicalize p = canonicalize c \<and> prefix_ci ps cs)"

text \<open>\<^verbatim>\<open>/literal/i.test(text)\<close>: the literal occurs somewhere in the text.\<close>

fun includes_ci :: "string \<Rightarrow> string \<Rightarrow> bool" where
  "includes_ci p [] = prefix_ci p []"
| "includes_ci p (c # cs) = (prefix_ci p (c # cs) \<or> includes_ci p cs)"

text \<open>The rest of the text after a match of the pattern at its start.\<close>

fun strip_ci :: "string \<Rightarrow> string \<Rightarrow> string option" where
  "strip_ci [] t = Some t"
| "strip_ci (p # ps) [] = None"
| "strip_ci (p # ps) (c # cs) = (if canonicalize p = canonicalize c then strip_ci ps cs else None)"

text \<open>\<^verbatim>\<open>.*B\<close> at the start of the text: \<^verbatim>\<open>.\<close> matches anything but a line terminator.\<close>

fun dotstar_ci :: "string \<Rightarrow> string \<Rightarrow> bool" where
  "dotstar_ci p [] = prefix_ci p []"
| "dotstar_ci p (c # cs) =
     (prefix_ci p (c # cs) \<or> (c \<noteq> CHR 0x0A \<and> c \<noteq> CHR 0x0D \<and> dotstar_ci p cs))"

text \<open>\<^verbatim>\<open>/A.*B/i.test(text)\<close>\<close>

fun seq_ci :: "string \<Rightarrow> string \<Rightarrow> string \<Rightarrow> bool" where
  "seq_ci a b [] = (case strip_ci a [] of Some r \<Rightarrow> dotstar_ci b r | None \<Rightarrow> False)"
| "seq_ci a b (c # cs) =
     ((case strip_ci a (c # cs) of Some r \<Rightarrow> dotstar_ci b r | None \<Rightarrow> False) \<or> seq_ci a b cs)"

section \<open>The failure classifier of the orchestrator\<close>

text \<open>\<^verbatim>\<open>String(error?.stack || error?.message || error || '')\<close>\<close>

definition errorText :: "jsval \<Rightarrow> exn + string" where
  "errorText error =
     String (js_or (js_or (js_or (get_stack error) (get_message error)) error) (JStr ''''))"

text \<open>The three regular expressions, as predicates on the text.\<close>

definition missingBinaryPattern :: "string \<Rightarrow> bool" where
  "missingBinaryPattern text \<longleftrightarrow>
     includes_ci ''Executable doesn't exist'' text
   \<or> includes_ci ''please run the following command to download new browsers'' text
   \<or> includes_ci ''browserType.launch: Executable'' text
   \<or> includes_ci ''browser not found'' text
   \<or> seq_ci ''No such file or directory'' ''playwright'' text"

definition connectivityPattern :: "string \<Rightarrow> bool" where
  "connectivityPattern text \<longleftrightarrow>
     includes_ci ''ERR_EMPTY_RESPONSE'' text
   \<or> includes_ci ''ERR_CONNECTION'' text
   \<or> includes_ci ''ECONNREFUSED'' text
   \<or> includes_ci ''Navigation timeout'' text"

definition runtimePattern :: "string \<Rightarrow> bool" where
  "runtimePattern text \<longleftrightarrow>
     includes_ci ''TargetClosedError'' text
   \<or> includes_ci ''BrowserType.launch'' text
   \<or> includes_ci ''crash'' text
   \<or> includes_ci ''SIGSEGV'' text
   \<or> includes_ci ''Connection terminated unexpectedly'' text"

definition isMissingBrowserBinaryError :: "jsval \<Rightarrow> exn + bool" where
  "isMissingBrowserBinaryError error =
     (case errorText error of
        Inl x \<Rightarrow> Inl x
      | Inr text \<Rightarrow> Inr (missingBinaryPattern text))"

definition classifyFailure :: "jsval \<Rightarrow> exn + string" where
  "classifyFailure error =
     (case errorText error of
        Inl x \<Rightarrow> Inl x
      | Inr text \<Rightarrow>
          (case isMissingBrowserBinaryError error of
             Inl x \<Rightarrow> Inl x
           | Inr missing \<Rightarrow>
               if missing then Inr ''binary-installation-failure''
               else if connectivityPattern text then Inr ''connectivity-failure''
               else if runtimePattern text then Inr ''browser-runtime-failure''
               else Inr ''application-failure''))"

definition isHttpReachabilityError :: "jsval \<Rightarrow> exn + bool" where
  "isHttpReachabilityError error =
     (case errorText error of
        Inl x \<Rightarrow> Inl x
      | Inr text \<Rightarrow>
          Inr (includes_ci ''ERR_EMPTY_RESPONSE'' text
             \<or> includes_ci ''ERR_CONNECTION'' text
             \<or> includes_ci ''ECONNREFUSED'' text
             \<or> includes_ci ''Connection terminated unexpectedly'' text
             \<or> includes_ci ''Navigation timeout'' text))"

section \<open>The failure classifier of the preflight check\<close>

text \<open>\<^verbatim>\<open>textOf\<close> of \<^verbatim>\<open>playwright/preflight.mjs\<close> has the body of \<^verbatim>\<open>errorText\<close>.\<close>

definition textOf :: "jsval \<Rightarrow> exn + string" where
  "textOf error =
     String (js_or (js_or (js_or (get_stack error) (get_message error)) error) (JStr ''''))"

definition preflightBinaryPattern :: "string \<Rightarrow> bool" where
  "preflightBinaryPattern text \<longleftrightarrow>
     includes_ci ''Executable doesn't exist'' text
   \<or> includes_ci ''browserType.launch: Executable'' text
   \<or> includes_ci ''please run the following command to download new browsers'' text
   \<or> includes_ci ''browser not found'' text
   \<or> includes_ci ''failed to launch browser process'' text"

definition preflightConnectivityPattern :: "string \<Rightarrow> bool" where
  "preflightConnectivityPattern text \<longleftrightarrow>
     includes_ci ''ECONNREFUSED'' text
   \<or> includes_ci ''ERR_CONNECTION'' text
   \<or> includes_ci ''ERR_EMPTY_RESPONSE'' text
   \<or> includes_ci ''Navigation timeout'' text"

definition preflightRuntimePattern :: "string \<Rightarrow> bool" where
  "preflightRuntimePattern text \<longleftrightarrow>
     includes_ci ''TargetClosedError'' text
   \<or> includes_ci ''has been closed'' text
   \<or> includes_ci ''crash'' text
   \<or> includes_ci ''SIGSEGV'' text"

definition looksLikeMissingBrowserBinary :: "jsval \<Rightarrow> exn + bool" where
  "looksLikeMissingBrowserBinary error =
     (case textOf error of
        Inl x \<Rightarrow> Inl x
      | Inr text \<Rightarrow> Inr (preflightBinaryPattern text))"

definition classifyBrowserLaunchError :: "jsval \<Rightarrow> exn + string" where
  "classifyBrowserLaunchError error =
     (case looksLikeMissingBrowserBinary error of
        Inl x \<Rightarrow> Inl x
      | Inr missing \<Rightarrow>
          if missing then Inr ''binary-installation-failure''
          else (case textOf error of
                  Inl x \<Rightarrow> Inl x
                | Inr text \<Rightarrow>
                    if preflightConnectivityPattern text then Inr ''connectivity-failure''
                    else if preflightRuntimePattern text then Inr ''browser-runtime-failure''
                    else Inr ''unknown-browser-failure''))"

section \<open>Values caught by the orchestrator\<close>

text \<open>
  The module loader, Playwright and the file system reject with \<^verbatim>\<open>Error\<close> instances:
  \<open>ThrownError stack message code str\<close> has the texts of \<^verbatim>\<open>stack\<close> and
  \<^verbatim>\<open>message\<close>, the \<^verbatim>\<open>code\<close> when there is one, and the text \<^verbatim>\<open>String\<close> gives
  for it. \<^verbatim>\<open>gotoWithRetry\<close> throws its \<^verbatim>\<open>lastError\<close>, which is \<^verbatim>\<open>null\<close> before
  the first failed attempt.
\<close>

datatype thrown =
    ThrownNull
  | ThrownError string string "string option" string

fun of_thrown :: "thrown \<Rightarrow> jsval" where
  "of_thrown ThrownNull = JNull"
| "of_thrown (ThrownError st m c r) =
     JObj (JStr st) (JStr m) (case c of None \<Rightarrow> JUndefined | Some k \<Rightarrow> JStr k) (Some r)"

text \<open>
  The result of a call that returned. On the values above the helpers below always
  return (lemma \<open>caught_total\<close>), so the orchestrator uses their results directly.
\<close>

fun returned :: "'a \<Rightarrow> exn + 'a \<Rightarrow> 'a" where
  "returned d (Inr x) = x"
| "returned d (Inl e) = d"

definition isMissingPlaywrightError :: "jsval \<Rightarrow> exn + bool" where
  "isMissingPlaywrightError error =
     (case errorText error of
        Inl x \<Rightarrow> Inl x
      | Inr text \<Rightarrow>
          Inr (get_code error = JStr ''ERR_MODULE_NOT_FOUND''
             \<or> includes_ci (''Cannot find package 'playwright'' @ [CHR 0x27]) text))"

definition caughtText :: "thrown \<Rightarrow> string" where
  "caughtText e = returned [] (errorText (of_thrown e))"

definition caughtClass :: "thrown \<Rightarrow> string" where
  "caughtClass e = returned [] (classifyFailure (of_thrown e))"

definition caughtMissingBinary :: "thrown \<Rightarrow> bool" where
  "caughtMissingBinary e = returned False (isMissingBrowserBinaryError (of_thrown e))"

definition caughtUnreachable :: "thrown \<Rightarrow> bool" where
  "caughtUnreachable e = returned False (isHttpReachabilityError (of_thrown e))"

definition caughtMissingPlaywright :: "thrown \<Rightarrow> bool" where
  "caughtMissingPlaywright e = returned False (isMissingPlaywrightError (of_thrown e))"

subsection \<open>The classifier of install output\<close>

definition toLowerCase :: "string \<Rightarrow> string" where
  "toLowerCase s =
     map (\<lambda>c. case map_of (zip ''ABCDEFGHIJKLMNOPQRSTUVWXYZ'' ''abcdefghijklmnopqrstuvwxyz'') c of
                 Some l \<Rightarrow> l
               | None \<Rightarrow> c) s"

fun startsWith :: "string \<Rightarrow> string \<Rightarrow> bool" where
  "startsWith t [] = True"
| "startsWith [] (p # ps) = False"
| "startsWith (c # cs) (p # ps) = (c = p \<and> startsWith cs ps)"

fun str_includes :: "string \<Rightarrow> string \<Rightarrow> bool" where
  "str_includes [] p = startsWith [] p"
| "str_includes (c # cs) p = (startsWith (c # cs) p \<or> str_includes cs p)"

definition isBlockedDownloadError :: "string \<Rightarrow> bool" where
  "isBlockedDownloadError text =
     (let output = toLowerCase text in
        str_includes output ''403''
      \<or> str_includes output ''domain forbidden''
      \<or> str_includes output ''failed to download''
      \<or> str_includes output ''download failed''
      \<or> str_includes output ''eai_again''
      \<or> str_includes output ''econnreset''
      \<or> str_includes output ''enotfound''
      \<or> str_includes output ''cdn''
      \<or> str_includes output ''network'')"

section \<open>The diagnostics record and the environment\<close>

text \<open>
  The diagnostics record of \<^verbatim>\<open>main\<close>. Time stamps (\<^verbatim>\<open>ts\<close>, \<^verbatim>\<open>startedAt\<close>,
  \<^verbatim>\<open>finishedAt\<close>), the page event logs and the health-check log (one entry per poll
  of a timed loop) are left out. Rows of the logs are tuples, in the order of the
  source's object literals.
\<close>

type_synonym binary_check = "string \<times> string \<times> bool"
type_synonym fallback = "string \<times> string \<times> string"
type_synonym strategy_attempt = "string \<times> string"
type_synonym navigation_attempt = "string \<times> nat"
type_synonym navigation_error = "nat \<times> string"
type_synonym launch_error = "string \<times> string"

record install_attempt =
  attempt_command :: string
  attempt_status :: "int option"
  attempt_blocked :: bool
  attempt_note :: "string option"

record diagnostics =
  serverHost :: "string option option"
  navigationAttempts :: "navigation_attempt list"
  navigationErrors :: "navigation_error list"
  navigationStrategyAttempts :: "strategy_attempt list"
  navigationFallbacks :: "fallback list"
  navigationStrategyUsed :: "string option"
  navigationHttpOptIn :: "bool option"
  browserAttempts :: "string list"
  browserLaunchErrors :: "launch_error list"
  classification :: string
  result :: string
  ci :: bool
  strict :: bool
  envSkipBrowserDownload :: bool
  instructions :: "string list"
  playwrightVersion :: "string option"
  binaryChecks :: "binary_check list option"
  installAttempt :: "install_attempt option"
  browserUsed :: "string option"
  baseUrl :: "string option"
  sanityScreenshot :: "string option"
  screenshot :: "string option"
  trace :: "string option"
  error :: "string option"

text \<open>The values of the \<^verbatim>\<open>details\<close> object of the summary line.\<close>

datatype detail =
    DNull
  | DBool bool
  | DStr string
  | DAttempt install_attempt
  | DMissing "(string \<times> string) list"
  | DLaunchErrors "launch_error list"

record final_line =
  ui_smoke :: string
  line_classification :: string
  action :: string
  details :: "(string \<times> detail) list"

text \<open>
  The state of a run: the diagnostics, the variable \<^verbatim>\<open>finalLine\<close>, the summary lines
  printed so far, \<^verbatim>\<open>process.exitCode\<close> and the last diagnostics document written.
  Writing the diagnostics and the server log is taken to succeed.
\<close>

record run =
  diag :: diagnostics
  finalLine :: "final_line option"
  summaryLines :: "final_line list"
  exitCode :: "nat option"
  diagnosticsFile :: "diagnostics option"

text \<open>
  What a run meets outside the script: the environment variables and the outcome of
  every call to a collaborator (\<open>None\<close> where the call succeeds, \<open>Some e\<close> where it
  rejects with \<open>e\<close>).
\<close>

record env =
  PLAYWRIGHT_STRICT :: "string option"
  PLAYWRIGHT_SKIP_BROWSER_DOWNLOAD :: "string option"
  CI :: "string option"
  UI_SMOKE_ALLOW_HTTP :: "string option"
  port :: string
  fileUrl :: string
  indexHtmlPath :: string
  stackFrames :: string
  packageVersion :: "string option"
  importPlaywright :: "thrown option"
  executablePaths :: "nat \<Rightarrow> string \<Rightarrow> (thrown + string \<times> bool) option"
  installStatus :: "int option"
  installOutput :: string
  spawnServer :: "thrown option"
  hostReachable :: "string \<Rightarrow> bool"
  launch :: "string \<Rightarrow> thrown option"
  sanity :: "thrown option"
  openPage :: "thrown option"
  goto :: "string \<Rightarrow> nat \<Rightarrow> thrown option"
  readIndexHtml :: "thrown option"
  setContent :: "thrown option"
  interaction :: "thrown option"

text \<open>Artifact paths, relative to the repository root.\<close>

definition screenshotPath :: string where
  "screenshotPath = ''artifacts/ui-smoke/screenshot.png''"

definition sanityPath :: string where
  "sanityPath = ''artifacts/ui-smoke/sanity.png''"

definition tracePath :: string where
  "tracePath = ''artifacts/ui-smoke/trace.zip''"

definition hosts :: "string list" where
  "hosts = [''127.0.0.1'', ''localhost'']"

text \<open>\<^verbatim>\<open>process.env.X ? a : b\<close>: a variable is truthy when set and not empty.\<close>

definition env_truthy :: "string option \<Rightarrow> bool" where
  "env_truthy v = (case v of None \<Rightarrow> False | Some s \<Rightarrow> s \<noteq> [])"

definition initialDiagnostics :: "env \<Rightarrow> diagnostics" where
  "initialDiagnostics e =
     \<lparr> serverHost = None,
       navigationAttempts = [],
       navigationErrors = [],
       navigationStrategyAttempts = [],
       navigationFallbacks = [],
       navigationStrategyUsed = None,
       navigationHttpOptIn = None,
       browserAttempts = [],
       browserLaunchErrors = [],
       classification = ''unknown'',
       result = ''running'',
       ci = (CI e = Some ''true''),
       strict = (PLAYWRIGHT_STRICT e = Some ''1''),
       envSkipBrowserDownload =
         (PLAYWRIGHT_SKIP_BROWSER_DOWNLOAD e = Some ''1''
          \<or> PLAYWRIGHT_SKIP_BROWSER_DOWNLOAD e = Some ''true''),
       instructions = [],
       playwrightVersion = None,
       binaryChecks = None,
       installAttempt = None,
       browserUsed = None,
       baseUrl = None,
       sanityScreenshot = None,
       screenshot = None,
       trace = None,
       error = None \<rparr>"

definition initialRun :: "env \<Rightarrow> run" where
  "initialRun e =
     \<lparr> diag = initialDiagnostics e,
       finalLine = None,
       summaryLines = [],
       exitCode = None,
       diagnosticsFile = None \<rparr>"

section \<open>The conclusion\<close>

text \<open>The closure \<^verbatim>\<open>conclude\<close> of \<^verbatim>\<open>main\<close>, with the run state it writes to.\<close>

definition conclude :: "string \<Rightarrow> string \<Rightarrow> (string \<times> detail) list \<Rightarrow> nat \<Rightarrow> run \<Rightarrow> run" where
  "conclude status cls dets exit st =
     (let d = (diag st)\<lparr> result := status, classification := cls \<rparr>;
          line = \<lparr> ui_smoke = status, line_classification = cls,
                   action = ''npx playwright install'', details = dets \<rparr>
      in st\<lparr> diag := d,
             diagnosticsFile := Some d,
             finalLine := Some line,
             summaryLines := summaryLines st @ [line],
             exitCode := Some exit \<rparr>)"

section \<open>Navigation\<close>

text \<open>
  The loop of \<^verbatim>\<open>gotoWithRetry\<close>: \<open>i\<close> is the loop counter, \<open>n\<close> the number of
  attempts left, \<open>lastError\<close> the variable of that name.
\<close>

fun gotoLoop ::
  "(nat \<Rightarrow> thrown option) \<Rightarrow> string \<Rightarrow> nat \<Rightarrow> nat \<Rightarrow> thrown \<Rightarrow> diagnostics
     \<Rightarrow> (thrown + unit) \<times> diagnostics" where
  "gotoLoop go url i 0 lastError d = (Inl lastError, d)"
| "gotoLoop go url i (Suc n) lastError d =
     (let d1 = d\<lparr> navigationAttempts := navigationAttempts d @ [(url, i + 1)] \<rparr> in
      case go (i + 1) of
        None \<Rightarrow> (Inr (), d1)
      | Some e \<Rightarrow>
          gotoLoop go url (i + 1) n e
            (d1\<lparr> navigationErrors := navigationErrors d1 @ [(i + 1, caughtText e)] \<rparr>))"

definition gotoWithRetry ::
  "env \<Rightarrow> string \<Rightarrow> nat \<Rightarrow> diagnostics \<Rightarrow> (thrown + unit) \<times> diagnostics" where
  "gotoWithRetry e url attempts d = gotoLoop (goto e url) url 0 attempts ThrownNull d"

definition tryHttpStrategy ::
  "env \<Rightarrow> string \<Rightarrow> diagnostics \<Rightarrow> (thrown + unit) \<times> diagnostics" where
  "tryHttpStrategy e url d =
     (case gotoWithRetry e url 3
             (d\<lparr> navigationStrategyAttempts :=
                    navigationStrategyAttempts d @ [(''HTTP'', url)] \<rparr>) of
        (Inl x, d1) \<Rightarrow> (Inl x, d1)
      | (Inr u, d1) \<Rightarrow> (Inr (), d1\<lparr> navigationStrategyUsed := Some ''HTTP'' \<rparr>))"

definition tryFileStrategy :: "env \<Rightarrow> diagnostics \<Rightarrow> (thrown + unit) \<times> diagnostics" where
  "tryFileStrategy e d =
     (case gotoWithRetry e (fileUrl e) 2
             (d\<lparr> navigationStrategyAttempts :=
                    navigationStrategyAttempts d @ [(''FILE'', fileUrl e)] \<rparr>) of
        (Inl x, d1) \<Rightarrow> (Inl x, d1)
      | (Inr u, d1) \<Rightarrow> (Inr (), d1\<lparr> navigationStrategyUsed := Some ''FILE'' \<rparr>))"

definition tryInlineStrategy :: "env \<Rightarrow> diagnostics \<Rightarrow> (thrown + unit) \<times> diagnostics" where
  "tryInlineStrategy e d =
     (case readIndexHtml e of
        Some x \<Rightarrow> (Inl x, d)
      | None \<Rightarrow>
          (let d1 = d\<lparr> navigationStrategyAttempts :=
                         navigationStrategyAttempts d @ [(''INLINE'', indexHtmlPath e)] \<rparr> in
           case setContent e of
             Some x \<Rightarrow> (Inl x, d1)
           | None \<Rightarrow> (Inr (), d1\<lparr> navigationStrategyUsed := Some ''INLINE'' \<rparr>)))"

text \<open>The second \<^verbatim>\<open>try\<close> statement of \<^verbatim>\<open>navigateWithFallback\<close>: FILE, then INLINE.\<close>

definition fileThenInline :: "env \<Rightarrow> diagnostics \<Rightarrow> (thrown + unit) \<times> diagnostics" where
  "fileThenInline e d =
     (case tryFileStrategy e d of
        (Inr u, d1) \<Rightarrow> (Inr (), d1)
      | (Inl x, d1) \<Rightarrow>
          tryInlineStrategy e
            (d1\<lparr> navigationFallbacks :=
                   navigationFallbacks d1 @ [(''FILE'', ''INLINE'', caughtText x)] \<rparr>))"

definition disabledReason :: string where
  "disabledReason =
     ''HTTP strategy disabled unless UI_SMOKE_ALLOW_HTTP=1 (default is file-safe mode for remote browser sandboxes).''"

definition navigateWithFallback ::
  "env \<Rightarrow> string \<Rightarrow> diagnostics \<Rightarrow> (thrown + unit) \<times> diagnostics" where
  "navigateWithFallback e url d =
     (let allowHttp = (UI_SMOKE_ALLOW_HTTP e = Some ''1'');
          d0 = d\<lparr> navigationHttpOptIn := Some allowHttp \<rparr>
      in if allowHttp \<and> url \<noteq> [] then
           (case tryHttpStrategy e url d0 of
              (Inr u, d1) \<Rightarrow> (Inr (), d1)
            | (Inl x, d1) \<Rightarrow>
                (let d2 = d1\<lparr> navigationFallbacks :=
                               navigationFallbacks d1 @ [(''HTTP'', ''FILE'', caughtText x)] \<rparr>
                 in if \<not> caughtUnreachable x then (Inl x, d2) else fileThenInline e d2))
         else
           fileThenInline e
             (d0\<lparr> navigationFallbacks :=
                    navigationFallbacks d0 @ [(''HTTP'', ''FILE'', disabledReason)] \<rparr>))"

section \<open>Probing the engine and its browsers\<close>

text \<open>
  \<^verbatim>\<open>resolvePlaywright\<close> returns the module (\<open>Inr True\<close>) or \<^verbatim>\<open>null\<close> (\<open>Inr False\<close>), or
  throws what the import threw.
\<close>

definition resolvePlaywright :: "env \<Rightarrow> diagnostics \<Rightarrow> (thrown + bool) \<times> diagnostics" where
  "resolvePlaywright e d =
     (let pkgVersion = (case packageVersion e of
                          None \<Rightarrow> ''unknown''
                        | Some v \<Rightarrow> if v \<noteq> [] then v else ''unknown'')
      in case importPlaywright e of
           Some x \<Rightarrow>
             if caughtMissingPlaywright x then
               (Inr False,
                d\<lparr> classification := ''binary-installation-failure'',
                   result := ''playwright-missing'',
                   instructions :=
                     [''Playwright package is missing in this environment.'',
                      ''Run locally: npm install'',
                      ''Then: npx playwright install'',
                      ''Then: npm run ui:smoke''] \<rparr>)
             else (Inl x, d)
         | None \<Rightarrow> (Inr True, d\<lparr> playwrightVersion := Some pkgVersion \<rparr>))"

definition targets :: "env \<Rightarrow> string list" where
  "targets e = (if env_truthy (CI e) then [''chromium''] else [''chromium'', ''webkit''])"

text \<open>
  The loop of \<^verbatim>\<open>detectBrowserExecutables\<close>. For a browser name, \<open>look\<close> is \<open>None\<close> where
  the engine has no such browser type, \<open>Some (Inl x)\<close> where \<^verbatim>\<open>executablePath()\<close> throws
  \<open>x\<close>, and \<open>Some (Inr (path, ex))\<close> where it returns \<open>path\<close> and \<^verbatim>\<open>canAccessFile\<close>
  gives \<open>ex\<close>.
\<close>

fun detectLoop ::
  "(string \<Rightarrow> (thrown + string \<times> bool) option) \<Rightarrow> string list \<Rightarrow> binary_check list
     \<Rightarrow> thrown + binary_check list" where
  "detectLoop look [] checks = Inr checks"
| "detectLoop look (name # rest) checks =
     (case look name of
        None \<Rightarrow> detectLoop look rest checks
      | Some (Inl x) \<Rightarrow> Inl x
      | Some (Inr (path, ex)) \<Rightarrow> detectLoop look rest (checks @ [(name, path, ex)]))"

text \<open>The \<open>k\<close>-th call of \<^verbatim>\<open>detectBrowserExecutables\<close> in the run.\<close>

definition detectBrowserExecutables ::
  "env \<Rightarrow> nat \<Rightarrow> diagnostics \<Rightarrow> (thrown + bool) \<times> diagnostics" where
  "detectBrowserExecutables e k d =
     (case detectLoop (executablePaths e k) (targets e) [] of
        Inl x \<Rightarrow> (Inl x, d)
      | Inr checks \<Rightarrow>
          (Inr (list_all (\<lambda>(name, path, ex). ex) checks), d\<lparr> binaryChecks := Some checks \<rparr>))"

fun join :: "string list \<Rightarrow> string" where
  "join [] = []"
| "join [a] = a"
| "join (a # b # bs) = a @ '' '' @ join (b # bs)"

text \<open>\<^verbatim>\<open>runPlaywrightInstall\<close> returns \<^verbatim>\<open>{ ok, blocked }\<close>.\<close>

definition runPlaywrightInstall ::
  "env \<Rightarrow> bool \<Rightarrow> diagnostics \<Rightarrow> (bool \<times> bool) \<times> diagnostics" where
  "runPlaywrightInstall e withDeps d =
     (let args = [''playwright'', ''install'']
                 @ (if withDeps then [''--with-deps''] else [])
                 @ (if env_truthy (CI e) then [''chromium''] else [''chromium'', ''webkit'']);
          isBlocked = isBlockedDownloadError (installOutput e);
          attempt = \<lparr> attempt_command = ''npx '' @ join args,
                      attempt_status = installStatus e,
                      attempt_blocked = isBlocked,
                      attempt_note =
                        (if installStatus e \<noteq> Some 0 \<and> isBlocked
                         then Some ''Browser binary download blocked by environment (CDN restriction).''
                         else None) \<rparr>
      in ((installStatus e = Some 0, isBlocked), d\<lparr> installAttempt := Some attempt \<rparr>))"

definition summarizeMissingBrowsers :: "diagnostics \<Rightarrow> (string \<times> string) list" where
  "summarizeMissingBrowsers d =
     map (\<lambda>(name, path, ex). (name, path))
         (filter (\<lambda>(name, path, ex). \<not> ex)
                 (case binaryChecks d of None \<Rightarrow> [] | Some rows \<Rightarrow> rows))"

section \<open>Server and browser\<close>

text \<open>
  \<^verbatim>\<open>startServer\<close>. \<open>spawnServer\<close> is \<open>Some x\<close> where the server process cannot be
  spawned: the child then emits \<^verbatim>\<open>error\<close> with \<open>x\<close>, nothing listens for it, and the
  process of the run ends on \<open>x\<close> uncaught (\<open>Inl x\<close>). \<open>hostReachable\<close> gives what
  \<^verbatim>\<open>waitForServer\<close> returns for a host. The result \<open>Inr h\<close> is \<^verbatim>\<open>selectedHost\<close>.
\<close>

definition startServer ::
  "env \<Rightarrow> diagnostics \<Rightarrow> (thrown + string option) \<times> diagnostics" where
  "startServer e d =
     (case spawnServer e of
        Some x \<Rightarrow> (Inl x, d)
      | None \<Rightarrow>
          (let selectedHost =
                 foldl (\<lambda>sel host. if hostReachable e host \<and> sel = None then Some host else sel)
                       None hosts
           in (Inr selectedHost, d\<lparr> serverHost := Some selectedHost \<rparr>)))"

text \<open>The loop of \<^verbatim>\<open>launchBrowser\<close> over the names of the candidates.\<close>

fun launchLoop :: "env \<Rightarrow> string list \<Rightarrow> diagnostics \<Rightarrow> string option \<times> diagnostics" where
  "launchLoop e [] d = (None, d)"
| "launchLoop e (name # rest) d =
     (let d1 = d\<lparr> browserAttempts := browserAttempts d @ [name] \<rparr> in
      case launch e name of
        None \<Rightarrow> (Some name, d1)
      | Some x \<Rightarrow>
          (let d2 = d1\<lparr> browserLaunchErrors := browserLaunchErrors d1 @ [(name, caughtText x)] \<rparr>
           in launchLoop e rest
                (if caughtMissingBinary x
                 then d2\<lparr> classification := ''binary-installation-failure'',
                          result := ''browser-binaries-missing'' \<rparr>
                 else d2)))"

definition launchBrowser :: "env \<Rightarrow> diagnostics \<Rightarrow> string option \<times> diagnostics" where
  "launchBrowser e d = launchLoop e (targets e) d"

definition runSanity :: "env \<Rightarrow> diagnostics \<Rightarrow> (thrown + unit) \<times> diagnostics" where
  "runSanity e d =
     (case sanity e of
        Some x \<Rightarrow> (Inl x, d)
      | None \<Rightarrow> (Inr (), d\<lparr> sanityScreenshot := Some sanityPath \<rparr>))"

text \<open>
  \<^verbatim>\<open>runAppScreenshot\<close>: \<open>openPage\<close> is the outcome of the calls before the \<^verbatim>\<open>try\<close>,
  \<open>interaction\<close> that of the waits, the click and the screenshot.
\<close>

definition runAppScreenshot ::
  "env \<Rightarrow> string \<Rightarrow> diagnostics \<Rightarrow> (thrown + unit) \<times> diagnostics" where
  "runAppScreenshot e url d =
     (case openPage e of
        Some x \<Rightarrow> (Inl x, d)
      | None \<Rightarrow>
          (case (case navigateWithFallback e url d of
                   (Inl x, d1) \<Rightarrow> (Inl x, d1)
                 | (Inr u, d1) \<Rightarrow>
                     (case interaction e of
                        Some x \<Rightarrow> (Inl x, d1)
                      | None \<Rightarrow> (Inr (), d1\<lparr> screenshot := Some screenshotPath \<rparr>))) of
             (Inl x, d2) \<Rightarrow>
               (Inl x, d2\<lparr> error := Some (caughtText x),
                           classification := caughtClass x,
                           trace := Some tracePath \<rparr>)
           | (Inr u, d2) \<Rightarrow> (Inr (), d2\<lparr> trace := Some tracePath \<rparr>)))"

section \<open>The orchestrator\<close>

definition attemptDetail :: "diagnostics \<Rightarrow> detail" where
  "attemptDetail d = (case installAttempt d of None \<Rightarrow> DNull | Some a \<Rightarrow> DAttempt a)"

definition with_diag :: "run \<Rightarrow> diagnostics \<Rightarrow> run" where
  "with_diag st d = st\<lparr> diag := d \<rparr>"

text \<open>
  Lines 452 to 501 of \<^verbatim>\<open>main\<close>: the check of the browser binaries and the install on
  demand. The result is \<open>Inr False\<close> where \<^verbatim>\<open>main\<close> concludes and returns, \<open>Inl x\<close>
  where \<^verbatim>\<open>detectBrowserExecutables\<close> throws \<open>x\<close>.
\<close>

definition ensureBrowsers :: "env \<Rightarrow> run \<Rightarrow> (thrown + bool) \<times> run" where
  "ensureBrowsers e st =
     (case detectBrowserExecutables e 0 (diag st) of
        (Inl x, d1) \<Rightarrow> (Inl x, with_diag st d1)
      | (Inr True, d1) \<Rightarrow> (Inr True, with_diag st d1)
      | (Inr False, d1) \<Rightarrow>
          (case runPlaywrightInstall e (CI e = Some ''true'') d1 of
             ((False, isBlocked), d2) \<Rightarrow>
               (let d3 = d2\<lparr> instructions :=
                              [''Playwright browsers not installed. Run: npx playwright install'',
                               if isBlocked
                               then ''Browser binary download blocked by environment (CDN restriction).''
                               else ''Browser install command failed for a non-network reason.''] \<rparr>
                in if isBlocked then
                     (Inr False, conclude ''skipped'' ''binary-installation-blocked''
                        [(''attempted'', attemptDetail d3),
                         (''missingBrowsers'', DMissing (summarizeMissingBrowsers d3)),
                         (''strict'', DBool (strict d3)),
                         (''ci'', DBool (ci d3))]
                        (if strict d3 then 1 else 0) (with_diag st d3))
                   else if ci d3 \<and> \<not> strict d3 then
                     (Inr False, conclude ''skipped'' ''binary-installation-blocked''
                        [(''attempted'', attemptDetail d3),
                         (''missingBrowsers'', DMissing (summarizeMissingBrowsers d3)),
                         (''reason'', DStr ''ci-default-warn-only'')]
                        0 (with_diag st d3))
                   else
                     (Inr False, conclude ''failed'' ''installable-missing''
                        [(''attempted'', attemptDetail d3),
                         (''missingBrowsers'', DMissing (summarizeMissingBrowsers d3))]
                        1 (with_diag st d3)))
           | ((True, isBlocked), d2) \<Rightarrow>
               (case detectBrowserExecutables e 1 d2 of
                  (Inl x, d3) \<Rightarrow> (Inl x, with_diag st d3)
                | (Inr True, d3) \<Rightarrow> (Inr True, with_diag st d3)
                | (Inr False, d3) \<Rightarrow>
                    (let d4 = d3\<lparr> instructions :=
                                   [''Playwright browsers not installed. Run: npx playwright install''] \<rparr>
                     in if ci d4 \<and> \<not> strict d4 then
                          (Inr False, conclude ''skipped'' ''binary-installation-blocked''
                             [(''missingBrowsers'', DMissing (summarizeMissingBrowsers d4)),
                              (''reason'', DStr ''ci-default-warn-only-after-install'')]
                             0 (with_diag st d4))
                        else
                          (Inr False, conclude ''failed'' ''installable-missing''
                             [(''missingBrowsers'', DMissing (summarizeMissingBrowsers d4))]
                             1 (with_diag st d4))))))"

text \<open>The error of line 509; \<open>stackFrames\<close> are the frames the engine appends to its stack.\<close>

definition serverError :: "env \<Rightarrow> thrown" where
  "serverError e =
     ThrownError
       (''Error: Server did not become reachable on 127.0.0.1 or localhost.'' @ stackFrames e)
       ''Server did not become reachable on 127.0.0.1 or localhost.''
       None
       ''Error: Server did not become reachable on 127.0.0.1 or localhost.''"

text \<open>
  The body of the \<^verbatim>\<open>try\<close> statement of \<^verbatim>\<open>main\<close> (lines 505 to 548), given the
  \<^verbatim>\<open>selectedHost\<close> of the server.
\<close>

definition tryBody :: "env \<Rightarrow> string option \<Rightarrow> run \<Rightarrow> (thrown + unit) \<times> run" where
  "tryBody e selectedHost st =
     (case selectedHost of
        None \<Rightarrow>
          (Inl (serverError e),
           with_diag st ((diag st)\<lparr> classification := ''connectivity-failure'',
                                    result := ''failed'' \<rparr>))
      | Some host \<Rightarrow>
          (case launchBrowser e (diag st) of
             (None, d1) \<Rightarrow>
               (let d2 = d1\<lparr> result := ''skipped'',
                              instructions :=
                                [''Browser launch failed in this environment.'',
                                 ''If this is a restricted sandbox, run locally:'',
                                 ''  npm install'',
                                 ''  npx playwright install'',
                                 ''  npm run ui:smoke'',
                                 ''Expected screenshot path: artifacts/ui-smoke/screenshot.png''] \<rparr>
                in (Inr (),
                    conclude ''failed'' ''test-failure''
                      [(''message'', DStr ''Browser failed to launch despite executable checks.''),
                       (''browserLaunchErrors'', DLaunchErrors (browserLaunchErrors d2))]
                      1 (with_diag st d2)))
           | (Some name, d1) \<Rightarrow>
               (case runSanity e (d1\<lparr> browserUsed := Some name \<rparr>) of
                  (Inl x, d2) \<Rightarrow> (Inl x, with_diag st d2)
                | (Inr u, d2) \<Rightarrow>
                    (let url = ''http://'' @ host @ '':'' @ port e @ ''/index.html'' in
                     case runAppScreenshot e url (d2\<lparr> baseUrl := Some url \<rparr>) of
                       (Inl x, d3) \<Rightarrow> (Inl x, with_diag st d3)
                     | (Inr u, d3) \<Rightarrow>
                         (Inr (),
                          conclude ''passed'' ''success''
                            [(''screenshot'', DStr screenshotPath),
                             (''sanity'', DStr sanityPath),
                             (''trace'', DStr tracePath),
                             (''strategy'', (case navigationStrategyUsed d3 of
                                               None \<Rightarrow> DNull
                                             | Some s \<Rightarrow> DStr s))]
                            0 (with_diag st d3))))))"

text \<open>\<^verbatim>\<open>diagnostics.error || errorText(error)\<close>\<close>

definition errorOr :: "diagnostics \<Rightarrow> thrown \<Rightarrow> string" where
  "errorOr d x =
     (case error d of
        None \<Rightarrow> caughtText x
      | Some t \<Rightarrow> if t \<noteq> [] then t else caughtText x)"

text \<open>The \<^verbatim>\<open>catch\<close> clause of \<^verbatim>\<open>main\<close> (lines 549 to 570).\<close>

definition catchClause :: "thrown \<Rightarrow> run \<Rightarrow> run" where
  "catchClause x st =
     (let d = diag st;
          d1 = d\<lparr> result := (if result d = ''skipped'' then ''skipped'' else ''failed'') \<rparr>;
          d2 = d1\<lparr> error := Some (errorOr d1 x) \<rparr>;
          d3 = d2\<lparr> classification :=
                      (if classification d2 = ''unknown'' then caughtClass x
                       else classification d2) \<rparr>
      in if classification d3 = ''binary-installation-failure''
            \<or> classification d3 = ''browser-runtime-failure''
         then
           (let d4 = d3\<lparr> result := ''skipped'' \<rparr> in
            conclude ''skipped'' ''binary-installation-blocked''
              [(''reason'', DStr (classification d4)),
               (''error'', (case error d4 of None \<Rightarrow> DNull | Some t \<Rightarrow> DStr t)),
               (''strict'', DBool (strict d4))]
              (if strict d4 then 1 else 0) (with_diag st d4))
         else
           conclude ''failed'' ''test-failure''
             [(''error'', DStr (errorOr d3 x)),
              (''classification'', DStr (classification d3))]
             1 (with_diag st d3))"

text \<open>The variable \<^verbatim>\<open>exitCode\<close> of \<^verbatim>\<open>main\<close>: set to 0 and never assigned again.\<close>

definition localExitCode :: nat where
  "localExitCode = 0"

text \<open>The \<^verbatim>\<open>finally\<close> clause of \<^verbatim>\<open>main\<close> (lines 571 to 578), after the server has stopped.\<close>

definition finallyClause :: "run \<Rightarrow> run" where
  "finallyClause st =
     (if finalLine st = None then
        conclude (if localExitCode = 0 then ''passed'' else ''failed'')
                 (if localExitCode = 0 then ''success'' else ''test-failure'')
                 [(''note'', DStr ''finalize-without-early-conclusion'')]
                 localExitCode st
      else st)"

text \<open>
  The \<^verbatim>\<open>try\<close> statement of \<^verbatim>\<open>main\<close> (lines 505 to 578): body, \<^verbatim>\<open>catch\<close> clause and
  \<^verbatim>\<open>finally\<close> clause.
\<close>

definition tryStatement :: "env \<Rightarrow> string option \<Rightarrow> run \<Rightarrow> run" where
  "tryStatement e selectedHost st =
     finallyClause
       (case tryBody e selectedHost st of
          (Inl x, st1) \<Rightarrow> catchClause x st1
        | (Inr u, st1) \<Rightarrow> st1)"

text \<open>
  Lines 428 to 501 of \<^verbatim>\<open>main\<close>, up to the start of the server. The result is \<open>Inl x\<close>
  where \<^verbatim>\<open>resolvePlaywright\<close> or \<^verbatim>\<open>detectBrowserExecutables\<close> throws \<open>x\<close>, \<open>Inr False\<close>
  where \<^verbatim>\<open>main\<close> concludes and returns, \<open>Inr True\<close> where it goes on to line 503.
\<close>

definition beforeServer :: "env \<Rightarrow> (thrown + bool) \<times> run" where
  "beforeServer e =
     (let st0 = initialRun e in
      case resolvePlaywright e (diag st0) of
        (Inl x, d) \<Rightarrow> (Inl x, with_diag st0 d)
      | (Inr False, d) \<Rightarrow>
          (Inr False,
           conclude ''failed'' ''installable-missing''
             [(''message'', DStr ''Playwright package missing.''),
              (''fix'', DStr ''npm install && npx playwright install && npm run ui:smoke'')]
             1 (with_diag st0 d))
      | (Inr True, d) \<Rightarrow>
          if envSkipBrowserDownload d then
            (let d1 = d\<lparr> instructions :=
                           [''PLAYWRIGHT_SKIP_BROWSER_DOWNLOAD is set; skipping screenshot execution by policy.'',
                            ''Unset PLAYWRIGHT_SKIP_BROWSER_DOWNLOAD to run screenshot capture.'',
                            ''Run: npx playwright install && npm run ui:smoke''] \<rparr>
             in (Inr False,
                 conclude ''skipped'' ''binary-installation-blocked''
                   [(''reason'', DStr ''PLAYWRIGHT_SKIP_BROWSER_DOWNLOAD''),
                    (''attempted'', attemptDetail d1),
                    (''missingBrowsers'', DMissing (summarizeMissingBrowsers d1))]
                   (if strict d1 then 1 else 0) (with_diag st0 d1)))
          else ensureBrowsers e (with_diag st0 d))"

text \<open>
  \<^verbatim>\<open>main\<close>. The result is \<open>Inl x\<close> where \<^verbatim>\<open>main\<close> does not return: its promise rejects
  with \<open>x\<close>, or the process ends on \<open>x\<close> uncaught. The state is that of the run at the
  end.
\<close>

definition main :: "env \<Rightarrow> (thrown + unit) \<times> run" where
  "main e =
     (case beforeServer e of
        (Inl x, st) \<Rightarrow> (Inl x, st)
      | (Inr False, st) \<Rightarrow> (Inr (), st)
      | (Inr True, st) \<Rightarrow>
          (case startServer e (diag st) of
             (Inl x, d) \<Rightarrow> (Inl x, with_diag st d)
           | (Inr selectedHost, d) \<Rightarrow>
               (Inr (), tryStatement e selectedHost (with_diag st d))))"

text \<open>The state of the run at the \<^verbatim>\<open>try\<close> statement (line 505), where \<^verbatim>\<open>main\<close> gets there.\<close>

definition tryEntry :: "env \<Rightarrow> run" where
  "tryEntry e =
     with_diag (snd (beforeServer e)) (snd (startServer e (diag (snd (beforeServer e)))))"

section \<open>Environments used as examples\<close>

text \<open>An environment in which the engine, both browsers, the server and the page all work.\<close>

definition okEnv :: env where
  "okEnv =
     \<lparr> PLAYWRIGHT_STRICT = None,
       PLAYWRIGHT_SKIP_BROWSER_DOWNLOAD = None,
       CI = None,
       UI_SMOKE_ALLOW_HTTP = None,
       port = ''4173'',
       fileUrl = ''file:///repo/index.html'',
       indexHtmlPath = ''/repo/index.html'',
       stackFrames = [],
       packageVersion = Some ''1.50.0'',
       importPlaywright = None,
       executablePaths = (\<lambda>k name. Some (Inr (''/browsers/'' @ name, True))),
       installStatus = Some 0,
       installOutput = [],
       spawnServer = None,
       hostReachable = (\<lambda>h. True),
       launch = (\<lambda>name. None),
       sanity = None,
       openPage = None,
       goto = (\<lambda>url k. None),
       readIndexHtml = None,
       setContent = None,
       interaction = None \<rparr>"

text \<open>Errors as Playwright and the module loader report them.\<close>

definition timeoutError :: thrown where
  "timeoutError =
     ThrownError ''TimeoutError: page.goto: Navigation timeout of 60000 ms exceeded.''
       ''page.goto: Navigation timeout of 60000 ms exceeded.'' None
       ''TimeoutError: page.goto: Navigation timeout of 60000 ms exceeded.''"

definition clickError :: thrown where
  "clickError =
     ThrownError ''TimeoutError: page.click: Timeout 30000ms exceeded.''
       ''page.click: Timeout 30000ms exceeded.'' None
       ''TimeoutError: page.click: Timeout 30000ms exceeded.''"

definition moduleMissingError :: thrown where
  "moduleMissingError =
     ThrownError (''Error [ERR_MODULE_NOT_FOUND]: Cannot find package 'playwright'' @ [CHR 0x27])
       (''Cannot find package 'playwright'' @ [CHR 0x27]) (Some ''ERR_MODULE_NOT_FOUND'')
       (''Error: Cannot find package 'playwright'' @ [CHR 0x27])"

definition crashError :: thrown where
  "crashError =
     ThrownError ''TargetClosedError: page.click: Target page, context or browser has been closed''
       ''page.click: Target page, context or browser has been closed'' None
       ''TargetClosedError: page.click: Target page, context or browser has been closed''"

definition missingBinaryError :: thrown where
  "missingBinaryError =
     ThrownError ''Error: browserType.launch: Executable doesn't exist at /browsers/chromium''
       ''browserType.launch: Executable doesn't exist at /browsers/chromium'' None
       ''Error: browserType.launch: Executable doesn't exist at /browsers/chromium''"


definition abortedError :: thrown where
  "abortedError =
     ThrownError ''Error: page.goto: net::ERR_ABORTED at http://127.0.0.1:4173/index.html''
       ''page.goto: net::ERR_ABORTED at http://127.0.0.1:4173/index.html'' None
       ''Error: page.goto: net::ERR_ABORTED at http://127.0.0.1:4173/index.html''"

text \<open>No host becomes reachable.\<close>

definition unreachableEnv :: env where
  "unreachableEnv = okEnv\<lparr> hostReachable := (\<lambda>h. False) \<rparr>"


text \<open>The skip flag is set and the package is missing.\<close>

definition skipWithoutPackageEnv :: env where
  "skipWithoutPackageEnv =
     okEnv\<lparr> PLAYWRIGHT_SKIP_BROWSER_DOWNLOAD := Some ''1'',
            importPlaywright := Some moduleMissingError \<rparr>"

text \<open>The skip flag is set, in strict mode.\<close>

definition skipEnv :: env where
  "skipEnv = okEnv\<lparr> PLAYWRIGHT_SKIP_BROWSER_DOWNLOAD := Some ''true'',
                    PLAYWRIGHT_STRICT := Some ''1'' \<rparr>"

text \<open>The scripted interaction ends in a navigation timeout.\<close>

definition timeoutEnv :: env where
  "timeoutEnv = okEnv\<lparr> interaction := Some timeoutError \<rparr>"

text \<open>The scripted interaction ends with the page closed.\<close>

definition crashEnv :: env where
  "crashEnv = okEnv\<lparr> interaction := Some crashError \<rparr>"

text \<open>
  Chromium fails to launch for a missing executable, WebKit launches, and the sanity
  check then fails on a click.
\<close>

definition staleEnv :: env where
  "staleEnv =
     okEnv\<lparr> launch := (\<lambda>name. if name = ''chromium'' then Some missingBinaryError else None),
            sanity := Some clickError \<rparr>"

text \<open>HTTP navigation is opted in and every navigation is aborted.\<close>

definition httpAbortedEnv :: env where
  "httpAbortedEnv =
     okEnv\<lparr> UI_SMOKE_ALLOW_HTTP := Some ''1'', goto := (\<lambda>url k. Some abortedError) \<rparr>"

section \<open>Predicates of the specification\<close>

text \<open>
  The rule for exit codes: 0 for \<^verbatim>\<open>passed\<close> and for \<^verbatim>\<open>skipped\<close> outside strict mode, 1 for
  \<^verbatim>\<open>failed\<close> and for \<^verbatim>\<open>skipped\<close> in strict mode (\<open>s\<close>).
\<close>

definition exitMatches :: "bool \<Rightarrow> string \<Rightarrow> nat \<Rightarrow> bool" where
  "exitMatches s status k \<longleftrightarrow>
     (k = 0 \<longleftrightarrow> status = ''passed'' \<or> (status = ''skipped'' \<and> \<not> s))
   \<and> (k = 1 \<longleftrightarrow> status = ''failed'' \<or> (status = ''skipped'' \<and> s))"

text \<open>No conclusion has been recorded or printed.\<close>

definition fresh :: "run \<Rightarrow> bool" where
  "fresh st \<longleftrightarrow> finalLine st = None \<and> summaryLines st = []"

text \<open>
  One conclusion has been recorded: one summary line printed, the line kept in
  \<^verbatim>\<open>finalLine\<close>, result and classification of the diagnostics those of the line, and
  an exit code that follows the rule.
\<close>

definition concludedOnce :: "run \<Rightarrow> bool" where
  "concludedOnce st \<longleftrightarrow>
     (case finalLine st of
        None \<Rightarrow> False
      | Some line \<Rightarrow>
          summaryLines st = [line]
        \<and> result (diag st) = ui_smoke line
        \<and> classification (diag st) = line_classification line
        \<and> (case exitCode st of
             None \<Rightarrow> False
           | Some k \<Rightarrow> exitMatches (strict (diag st)) (ui_smoke line) k))"

text \<open>
  No use of HTTP is recorded, and the first fallback recorded, if any, is the one for
  HTTP being disabled.
\<close>

definition navigationSafe :: "diagnostics \<Rightarrow> bool" where
  "navigationSafe d \<longleftrightarrow>
     navigationStrategyUsed d \<noteq> Some ''HTTP''
   \<and> (case navigationFallbacks d of
        [] \<Rightarrow> True
      | f # rest \<Rightarrow> f = (''HTTP'', ''FILE'', disabledReason))"

section \<open>Properties of the classifiers\<close>

lemma textOf_errorText: "textOf v = errorText v"
  by (simp add: textOf_def errorText_def)

lemma exn_cases: "(r :: exn + 'a) = Inl TypeError \<or> (\<exists>t. r = Inr t)"
  by (cases r) (auto intro: exn.exhaust)

lemma classifyFailure_Inr:
  "errorText v = Inr text \<Longrightarrow>
   classifyFailure v =
     Inr (if missingBinaryPattern text then ''binary-installation-failure''
          else if connectivityPattern text then ''connectivity-failure''
          else if runtimePattern text then ''browser-runtime-failure''
          else ''application-failure'')"
  by (simp add: classifyFailure_def isMissingBrowserBinaryError_def)

lemma classifyBrowserLaunchError_Inr:
  "errorText v = Inr text \<Longrightarrow>
   classifyBrowserLaunchError v =
     Inr (if preflightBinaryPattern text then ''binary-installation-failure''
          else if preflightConnectivityPattern text then ''connectivity-failure''
          else if preflightRuntimePattern text then ''browser-runtime-failure''
          else ''unknown-browser-failure'')"
  by (simp add: classifyBrowserLaunchError_def looksLikeMissingBrowserBinary_def textOf_errorText)

text \<open>
  Claim C4. For every error value whose text can be taken, both classifiers test the
  signatures in the order binary-installation, connectivity, runtime crash, default: a
  text with a binary-installation signature is classified
  \<^verbatim>\<open>binary-installation-failure\<close> whatever connectivity or runtime signatures it also
  has, a connectivity signature decides only when no binary signature is present, a
  runtime signature only when neither is, and the default is returned only when none is.
\<close>

theorem classifier_priority:
  "errorText v = Inr text \<Longrightarrow>
     (missingBinaryPattern text \<longrightarrow> classifyFailure v = Inr ''binary-installation-failure'')
   \<and> (\<not> missingBinaryPattern text \<and> connectivityPattern text \<longrightarrow>
        classifyFailure v = Inr ''connectivity-failure'')
   \<and> (\<not> missingBinaryPattern text \<and> \<not> connectivityPattern text \<and> runtimePattern text \<longrightarrow>
        classifyFailure v = Inr ''browser-runtime-failure'')
   \<and> (\<not> missingBinaryPattern text \<and> \<not> connectivityPattern text \<and> \<not> runtimePattern text \<longrightarrow>
        classifyFailure v = Inr ''application-failure'')
   \<and> (preflightBinaryPattern text \<longrightarrow>
        classifyBrowserLaunchError v = Inr ''binary-installation-failure'')
   \<and> (\<not> preflightBinaryPattern text \<and> preflightConnectivityPattern text \<longrightarrow>
        classifyBrowserLaunchError v = Inr ''connectivity-failure'')
   \<and> (\<not> preflightBinaryPattern text \<and> \<not> preflightConnectivityPattern text
        \<and> preflightRuntimePattern text \<longrightarrow>
        classifyBrowserLaunchError v = Inr ''browser-runtime-failure'')
   \<and> (\<not> preflightBinaryPattern text \<and> \<not> preflightConnectivityPattern text
        \<and> \<not> preflightRuntimePattern text \<longrightarrow>
        classifyBrowserLaunchError v = Inr ''unknown-browser-failure'')"
  by (simp add: classifyFailure_Inr classifyBrowserLaunchError_Inr)

theorem classifier_priority_witness:
  "errorText (JStr ''Executable doesn't exist; ECONNREFUSED; crash'')
     = Inr ''Executable doesn't exist; ECONNREFUSED; crash''
   \<and> missingBinaryPattern ''Executable doesn't exist; ECONNREFUSED; crash''
   \<and> connectivityPattern ''Executable doesn't exist; ECONNREFUSED; crash''
   \<and> runtimePattern ''Executable doesn't exist; ECONNREFUSED; crash''
   \<and> preflightBinaryPattern ''Executable doesn't exist; ECONNREFUSED; crash''
   \<and> classifyFailure (JStr ''Executable doesn't exist; ECONNREFUSED; crash'')
        = Inr ''binary-installation-failure''
   \<and> classifyBrowserLaunchError (JStr ''Executable doesn't exist; ECONNREFUSED; crash'')
        = Inr ''binary-installation-failure''"
proof -
  let ?t = "''Executable doesn't exist; ECONNREFUSED; crash''"
  have t: "errorText (JStr ?t) = Inr ?t" by code_simp
  have m: "missingBinaryPattern ?t" by code_simp
  have c: "connectivityPattern ?t" by code_simp
  have r: "runtimePattern ?t" by code_simp
  have p: "preflightBinaryPattern ?t" by code_simp
  from classifier_priority [OF t] m p
  have "classifyFailure (JStr ?t) = Inr ''binary-installation-failure''"
    and "classifyBrowserLaunchError (JStr ?t) = Inr ''binary-installation-failure''"
    by blast+
  with t m c r p show ?thesis by blast
qed

text \<open>
  Claim C9, as stated, fails: on the text \<^verbatim>\<open>failed to launch browser process\<close> the
  main classifier returns its default while the preflight classifier returns
  \<^verbatim>\<open>binary-installation-failure\<close>, not \<^verbatim>\<open>unknown-browser-failure\<close>.
\<close>

theorem classifiers_differ:
  "classifyFailure (JStr ''failed to launch browser process'') = Inr ''application-failure''
   \<and> classifyBrowserLaunchError (JStr ''failed to launch browser process'')
       = Inr ''binary-installation-failure''"
  by code_simp

text \<open>
  Claim C9, amended. The signature lists of the two classifiers differ in five entries
  (\<^verbatim>\<open>No such file or directory.*playwright\<close>, \<^verbatim>\<open>BrowserType\.launch\<close> and
  \<^verbatim>\<open>Connection terminated unexpectedly\<close> only in the main one,
  \<^verbatim>\<open>failed to launch browser process\<close> and \<^verbatim>\<open>has been closed\<close> only in the preflight
  one). On every error whose text matches none of the five, the preflight classifier
  returns what the main classifier returns, with \<^verbatim>\<open>unknown-browser-failure\<close> in place of
  \<^verbatim>\<open>application-failure\<close>.
\<close>

theorem classifiers_agree_off_differing_signatures:
  "errorText v = Inr text \<Longrightarrow>
   \<not> seq_ci ''No such file or directory'' ''playwright'' text \<Longrightarrow>
   \<not> includes_ci ''failed to launch browser process'' text \<Longrightarrow>
   \<not> includes_ci ''BrowserType.launch'' text \<Longrightarrow>
   \<not> includes_ci ''Connection terminated unexpectedly'' text \<Longrightarrow>
   \<not> includes_ci ''has been closed'' text \<Longrightarrow>
   classifyBrowserLaunchError v =
     (if classifyFailure v = Inr ''application-failure'' then Inr ''unknown-browser-failure''
      else classifyFailure v)"
  by (auto simp add: classifyFailure_Inr classifyBrowserLaunchError_Inr
      missingBinaryPattern_def preflightBinaryPattern_def connectivityPattern_def
      preflightConnectivityPattern_def runtimePattern_def preflightRuntimePattern_def)

theorem classifiers_agree_witness:
  "errorText (JStr ''page.click: Timeout 30000ms exceeded'')
     = Inr ''page.click: Timeout 30000ms exceeded''
   \<and> \<not> seq_ci ''No such file or directory'' ''playwright'' ''page.click: Timeout 30000ms exceeded''
   \<and> \<not> includes_ci ''failed to launch browser process'' ''page.click: Timeout 30000ms exceeded''
   \<and> \<not> includes_ci ''BrowserType.launch'' ''page.click: Timeout 30000ms exceeded''
   \<and> \<not> includes_ci ''Connection terminated unexpectedly'' ''page.click: Timeout 30000ms exceeded''
   \<and> \<not> includes_ci ''has been closed'' ''page.click: Timeout 30000ms exceeded''
   \<and> classifyFailure (JStr ''page.click: Timeout 30000ms exceeded'') = Inr ''application-failure''
   \<and> classifyBrowserLaunchError (JStr ''page.click: Timeout 30000ms exceeded'')
       = Inr ''unknown-browser-failure''"
proof -
  let ?t = "''page.click: Timeout 30000ms exceeded''"
  have t: "errorText (JStr ?t) = Inr ?t" by code_simp
  have a: "\<not> seq_ci ''No such file or directory'' ''playwright'' ?t" by code_simp
  have b: "\<not> includes_ci ''failed to launch browser process'' ?t" by code_simp
  have c: "\<not> includes_ci ''BrowserType.launch'' ?t" by code_simp
  have d: "\<not> includes_ci ''Connection terminated unexpectedly'' ?t" by code_simp
  have e: "\<not> includes_ci ''has been closed'' ?t" by code_simp
  have f: "classifyFailure (JStr ?t) = Inr ''application-failure''" by code_simp
  from classifiers_agree_off_differing_signatures [OF t a b c d e] f
  have "classifyBrowserLaunchError (JStr ?t) = Inr ''unknown-browser-failure''" by simp
  with t a b c d e f show ?thesis by blast
qed

lemma errorText_primitive:
  "errorText JUndefined = Inr ''''"
  "errorText JNull = Inr ''''"
  "errorText (JStr s) = Inr s"
  "errorText (JBool b) = Inr (if b then ''true'' else '''')"
  "errorText (JPrim t s) = Inr (if t then s else '''')"
  by (simp_all add: errorText_def js_or_def)

text \<open>
  Claim C10, as stated, fails: on an object without \<^verbatim>\<open>stack\<close> and \<^verbatim>\<open>message\<close> whose
  conversion to a string throws (\<^verbatim>\<open>Object.create(null)\<close>), \<^verbatim>\<open>classifyFailure\<close> throws.
\<close>

theorem classifyFailure_throws:
  "classifyFailure (JObj JUndefined JUndefined JUndefined None) = Inl TypeError"
  by code_simp

text \<open>
  Claim C10, amended. On every input on which \<^verbatim>\<open>errorText\<close> does not throw,
  \<^verbatim>\<open>classifyFailure\<close> returns one of its four labels and never \<^verbatim>\<open>unknown\<close>; on every
  other input it throws. \<^verbatim>\<open>errorText\<close> does not throw on \<^verbatim>\<open>null\<close>, on \<^verbatim>\<open>undefined\<close>, on a
  string or another primitive, on an object whose \<^verbatim>\<open>stack\<close> is a non-empty string, on an
  object with a falsy \<^verbatim>\<open>stack\<close> whose \<^verbatim>\<open>message\<close> is a non-empty string, and on an object
  with falsy (or no) \<^verbatim>\<open>stack\<close> and \<^verbatim>\<open>message\<close> that itself converts to a string.
\<close>

theorem classifyFailure_range:
  "(errorText v \<noteq> Inl TypeError \<longrightarrow>
      classifyFailure v \<in> {Inr ''binary-installation-failure'', Inr ''connectivity-failure'',
                            Inr ''browser-runtime-failure'', Inr ''application-failure''}
      \<and> classifyFailure v \<noteq> Inr ''unknown'')
   \<and> (errorText v = Inl TypeError \<longrightarrow> classifyFailure v = Inl TypeError)
   \<and> errorText JNull \<noteq> Inl TypeError
   \<and> errorText JUndefined \<noteq> Inl TypeError
   \<and> errorText (JStr s) \<noteq> Inl TypeError
   \<and> errorText (JBool b) \<noteq> Inl TypeError
   \<and> errorText (JPrim t s) \<noteq> Inl TypeError
   \<and> (st \<noteq> [] \<longrightarrow> errorText (JObj (JStr st) m c r) \<noteq> Inl TypeError)
   \<and> (\<not> truthy stk \<and> msg \<noteq> [] \<longrightarrow> errorText (JObj stk (JStr msg) c r) \<noteq> Inl TypeError)
   \<and> (\<not> truthy stk \<and> \<not> truthy m \<longrightarrow> errorText (JObj stk m c (Some s)) \<noteq> Inl TypeError)"
proof -
  have "classifyFailure v \<in> {Inr ''binary-installation-failure'', Inr ''connectivity-failure'',
                            Inr ''browser-runtime-failure'', Inr ''application-failure''}
      \<and> classifyFailure v \<noteq> Inr ''unknown''" if "errorText v \<noteq> Inl TypeError"
  proof -
    from that exn_cases [of "errorText v"] obtain s where "errorText v = Inr s" by blast
    then show ?thesis by (simp add: classifyFailure_Inr)
  qed
  moreover have "errorText v = Inl TypeError \<longrightarrow> classifyFailure v = Inl TypeError"
    by (simp add: classifyFailure_def)
  ultimately show ?thesis
    by (simp add: errorText_primitive errorText_def js_or_def)
qed

theorem classifyFailure_range_witness:
  "errorText (JObj JUndefined JUndefined JUndefined (Some ''[object Object]'')) \<noteq> Inl TypeError
   \<and> classifyFailure (JObj JUndefined JUndefined JUndefined (Some ''[object Object]''))
       = Inr ''application-failure''"
proof -
  let ?v = "JObj JUndefined JUndefined JUndefined (Some ''[object Object]'')"
  have h: "errorText ?v \<noteq> Inl TypeError" by code_simp
  have e: "classifyFailure ?v = Inr ''application-failure''" by code_simp
  from classifyFailure_range [of ?v] h
  have "classifyFailure ?v \<noteq> Inr ''unknown''" by blast
  with h e show ?thesis by blast
qed

section \<open>Caught values and the conclusion\<close>

lemma errorText_of_thrown:
  "errorText (of_thrown x) =
     Inr (case x of ThrownNull \<Rightarrow> [] | ThrownError st m c r \<Rightarrow>
            if st \<noteq> [] then st else if m \<noteq> [] then m else r)"
  by (cases x) (simp_all add: errorText_def js_or_def)

lemma caught_total:
  "errorText (of_thrown x) = Inr (caughtText x)"
  "classifyFailure (of_thrown x) = Inr (caughtClass x)"
  "isMissingBrowserBinaryError (of_thrown x) = Inr (caughtMissingBinary x)"
  "isHttpReachabilityError (of_thrown x) = Inr (caughtUnreachable x)"
  "isMissingPlaywrightError (of_thrown x) = Inr (caughtMissingPlaywright x)"
  by (simp_all add: caughtText_def caughtClass_def caughtMissingBinary_def caughtUnreachable_def
      caughtMissingPlaywright_def errorText_of_thrown classifyFailure_def
      isMissingBrowserBinaryError_def isHttpReachabilityError_def isMissingPlaywrightError_def)

lemma conclude_fields [simp]:
  "result (diag (conclude s c dt k st)) = s"
  "classification (diag (conclude s c dt k st)) = c"
  "exitCode (conclude s c dt k st) = Some k"
  "finalLine (conclude s c dt k st) =
     Some \<lparr> ui_smoke = s, line_classification = c, action = ''npx playwright install'', details = dt \<rparr>"
  "summaryLines (conclude s c dt k st) = summaryLines st @
     [\<lparr> ui_smoke = s, line_classification = c, action = ''npx playwright install'', details = dt \<rparr>]"
  "diagnosticsFile (conclude s c dt k st) = Some (diag (conclude s c dt k st))"
  "strict (diag (conclude s c dt k st)) = strict (diag st)"
  "navigationFallbacks (diag (conclude s c dt k st)) = navigationFallbacks (diag st)"
  "navigationStrategyUsed (diag (conclude s c dt k st)) = navigationStrategyUsed (diag st)"
  "browserAttempts (diag (conclude s c dt k st)) = browserAttempts (diag st)"
  "binaryChecks (diag (conclude s c dt k st)) = binaryChecks (diag st)"
  "installAttempt (diag (conclude s c dt k st)) = installAttempt (diag st)"
  by (simp_all add: conclude_def Let_def)

lemma caughtClass_range:
  "caughtClass x \<in> {''binary-installation-failure'', ''connectivity-failure'',
                     ''browser-runtime-failure'', ''application-failure''}"
proof -
  from caught_total(1) [of x] have "classifyFailure (of_thrown x) =
     Inr (if missingBinaryPattern (caughtText x) then ''binary-installation-failure''
          else if connectivityPattern (caughtText x) then ''connectivity-failure''
          else if runtimePattern (caughtText x) then ''browser-runtime-failure''
          else ''application-failure'')"
    by (rule classifyFailure_Inr)
  then show ?thesis by (simp add: caught_total(2))
qed

text \<open>\<^verbatim>\<open>conclude\<close> has no guard of its own: a second call overwrites the first.\<close>

lemma conclude_overwrites:
  "result (diag (conclude s2 c2 dt2 k2 (conclude s1 c1 dt1 k1 st))) = s2
   \<and> classification (diag (conclude s2 c2 dt2 k2 (conclude s1 c1 dt1 k1 st))) = c2
   \<and> length (summaryLines (conclude s2 c2 dt2 k2 (conclude s1 c1 dt1 k1 st)))
       = length (summaryLines st) + 2"
  by simp

lemma with_diag_fields [simp]:
  "diag (with_diag st d) = d"
  "finalLine (with_diag st d) = finalLine st"
  "summaryLines (with_diag st d) = summaryLines st"
  "exitCode (with_diag st d) = exitCode st"
  by (simp_all add: with_diag_def)

lemma gotoLoop_frame:
  "strict (snd (gotoLoop go url i n le d)) = strict d
   \<and> navigationFallbacks (snd (gotoLoop go url i n le d)) = navigationFallbacks d
   \<and> navigationStrategyUsed (snd (gotoLoop go url i n le d)) = navigationStrategyUsed d
   \<and> navigationStrategyAttempts (snd (gotoLoop go url i n le d)) = navigationStrategyAttempts d"
  by (induction n arbitrary: i le d) (simp_all add: Let_def split: option.split)

lemma gotoWithRetry_frame [simp]:
  "strict (snd (gotoWithRetry e url n d)) = strict d"
  "navigationFallbacks (snd (gotoWithRetry e url n d)) = navigationFallbacks d"
  "navigationStrategyUsed (snd (gotoWithRetry e url n d)) = navigationStrategyUsed d"
  "navigationStrategyAttempts (snd (gotoWithRetry e url n d)) = navigationStrategyAttempts d"
  by (simp_all add: gotoWithRetry_def gotoLoop_frame)

lemma tryHttpStrategy_frame [simp]:
  "strict (snd (tryHttpStrategy e url d)) = strict d"
  "navigationFallbacks (snd (tryHttpStrategy e url d)) = navigationFallbacks d"
  "navigationStrategyAttempts (snd (tryHttpStrategy e url d))
     = navigationStrategyAttempts d @ [(''HTTP'', url)]"
  "fst (tryHttpStrategy e url d) = Inl x \<Longrightarrow>
     navigationStrategyUsed (snd (tryHttpStrategy e url d)) = navigationStrategyUsed d"
  by (simp_all add: tryHttpStrategy_def split_beta split: sum.splits)

lemma tryFileStrategy_frame [simp]:
  "strict (snd (tryFileStrategy e d)) = strict d"
  "navigationFallbacks (snd (tryFileStrategy e d)) = navigationFallbacks d"
  "navigationStrategyUsed (snd (tryFileStrategy e d)) =
     (case fst (tryFileStrategy e d) of Inl x \<Rightarrow> navigationStrategyUsed d | Inr u \<Rightarrow> Some ''FILE'')"
  by (simp_all add: tryFileStrategy_def split_beta split: sum.splits)

lemma tryInlineStrategy_frame [simp]:
  "strict (snd (tryInlineStrategy e d)) = strict d"
  "navigationFallbacks (snd (tryInlineStrategy e d)) = navigationFallbacks d"
  "navigationStrategyUsed (snd (tryInlineStrategy e d)) =
     (case fst (tryInlineStrategy e d) of Inl x \<Rightarrow> navigationStrategyUsed d | Inr u \<Rightarrow> Some ''INLINE'')"
  by (simp_all add: tryInlineStrategy_def Let_def split: sum.splits option.splits)

lemma fileThenInline_frame:
  "strict (snd (fileThenInline e d)) = strict d"
  "\<exists>rest. navigationFallbacks (snd (fileThenInline e d)) = navigationFallbacks d @ rest"
  "navigationStrategyUsed (snd (fileThenInline e d)) = navigationStrategyUsed d
   \<or> navigationStrategyUsed (snd (fileThenInline e d)) = Some ''FILE''
   \<or> navigationStrategyUsed (snd (fileThenInline e d)) = Some ''INLINE''"
  by (simp_all add: fileThenInline_def split_beta split: sum.splits)

lemma navigateWithFallback_strict [simp]:
  "strict (snd (navigateWithFallback e url d)) = strict d"
  by (simp add: navigateWithFallback_def Let_def split_beta fileThenInline_frame split: sum.splits)

lemma navigateWithFallback_disabled:
  assumes "UI_SMOKE_ALLOW_HTTP e \<noteq> Some ''1''"
  shows "\<exists>rest. navigationFallbacks (snd (navigateWithFallback e url d))
           = navigationFallbacks d @ (''HTTP'', ''FILE'', disabledReason) # rest"
    and "navigationStrategyUsed (snd (navigateWithFallback e url d)) = navigationStrategyUsed d
         \<or> navigationStrategyUsed (snd (navigateWithFallback e url d)) = Some ''FILE''
         \<or> navigationStrategyUsed (snd (navigateWithFallback e url d)) = Some ''INLINE''"
proof -
  let ?d = "d\<lparr> navigationHttpOptIn := Some False \<rparr>
             \<lparr> navigationFallbacks := navigationFallbacks d @ [(''HTTP'', ''FILE'', disabledReason)] \<rparr>"
  have eq: "navigateWithFallback e url d = fileThenInline e ?d"
    using assms by (simp add: navigateWithFallback_def Let_def)
  from fileThenInline_frame(2) [of e ?d] eq
  show "\<exists>rest. navigationFallbacks (snd (navigateWithFallback e url d))
           = navigationFallbacks d @ (''HTTP'', ''FILE'', disabledReason) # rest"
    by auto
  from fileThenInline_frame(3) [of e ?d] eq
  show "navigationStrategyUsed (snd (navigateWithFallback e url d)) = navigationStrategyUsed d
         \<or> navigationStrategyUsed (snd (navigateWithFallback e url d)) = Some ''FILE''
         \<or> navigationStrategyUsed (snd (navigateWithFallback e url d)) = Some ''INLINE''"
    by auto
qed

lemma launchLoop_frame:
  "strict (snd (launchLoop e names d)) = strict d
   \<and> navigationFallbacks (snd (launchLoop e names d)) = navigationFallbacks d
   \<and> navigationStrategyUsed (snd (launchLoop e names d)) = navigationStrategyUsed d"
  by (induction names arbitrary: d) (simp_all add: Let_def split: option.split)

lemma launchBrowser_frame [simp]:
  "strict (snd (launchBrowser e d)) = strict d"
  "navigationFallbacks (snd (launchBrowser e d)) = navigationFallbacks d"
  "navigationStrategyUsed (snd (launchBrowser e d)) = navigationStrategyUsed d"
  by (simp_all add: launchBrowser_def launchLoop_frame)

lemma runSanity_frame [simp]:
  "strict (snd (runSanity e d)) = strict d"
  "navigationFallbacks (snd (runSanity e d)) = navigationFallbacks d"
  "navigationStrategyUsed (snd (runSanity e d)) = navigationStrategyUsed d"
  by (simp_all add: runSanity_def split: option.split)

lemma runAppScreenshot_frame:
  "strict (snd (runAppScreenshot e url d)) = strict d"
  "UI_SMOKE_ALLOW_HTTP e \<noteq> Some ''1'' \<Longrightarrow>
     navigationFallbacks (snd (runAppScreenshot e url d)) = navigationFallbacks d
     \<or> (\<exists>rest. navigationFallbacks (snd (runAppScreenshot e url d))
          = navigationFallbacks d @ (''HTTP'', ''FILE'', disabledReason) # rest)"
  "UI_SMOKE_ALLOW_HTTP e \<noteq> Some ''1'' \<Longrightarrow>
     navigationStrategyUsed (snd (runAppScreenshot e url d)) = navigationStrategyUsed d
     \<or> navigationStrategyUsed (snd (runAppScreenshot e url d)) = Some ''FILE''
     \<or> navigationStrategyUsed (snd (runAppScreenshot e url d)) = Some ''INLINE''"
proof -
  show "strict (snd (runAppScreenshot e url d)) = strict d"
    by (simp add: runAppScreenshot_def split_beta split: option.split sum.split)
next
  assume h: "UI_SMOKE_ALLOW_HTTP e \<noteq> Some ''1''"
  from navigateWithFallback_disabled(1) [OF h, of url d]
  show "navigationFallbacks (snd (runAppScreenshot e url d)) = navigationFallbacks d
     \<or> (\<exists>rest. navigationFallbacks (snd (runAppScreenshot e url d))
          = navigationFallbacks d @ (''HTTP'', ''FILE'', disabledReason) # rest)"
    by (auto simp add: runAppScreenshot_def split_beta split: option.split sum.split)
next
  assume h: "UI_SMOKE_ALLOW_HTTP e \<noteq> Some ''1''"
  from navigateWithFallback_disabled(2) [OF h, of url d]
  show "navigationStrategyUsed (snd (runAppScreenshot e url d)) = navigationStrategyUsed d
     \<or> navigationStrategyUsed (snd (runAppScreenshot e url d)) = Some ''FILE''
     \<or> navigationStrategyUsed (snd (runAppScreenshot e url d)) = Some ''INLINE''"
    by (auto simp add: runAppScreenshot_def split_beta split: option.split sum.split)
qed

section \<open>The phases of a run\<close>

lemma fresh_with_diag [simp]: "fresh (with_diag st d) = fresh st"
  by (simp add: fresh_def)

lemma fresh_initialRun [simp]: "fresh (initialRun e)"
  by (simp add: fresh_def initialRun_def)

lemma conclude_once:
  "fresh st \<Longrightarrow> exitMatches (strict (diag st)) s k \<Longrightarrow> concludedOnce (conclude s c dt k st)"
  by (simp add: fresh_def concludedOnce_def)

lemma exitMatches_simps [simp]:
  "exitMatches s ''failed'' (Suc 0)"
  "exitMatches s ''passed'' 0"
  "exitMatches s ''skipped'' (if s then 1 else 0)"
  "\<not> s \<Longrightarrow> exitMatches s ''skipped'' 0"
  by (simp_all add: exitMatches_def)

lemma resolvePlaywright_frame [simp]:
  "strict (snd (resolvePlaywright e d)) = strict d"
  "envSkipBrowserDownload (snd (resolvePlaywright e d)) = envSkipBrowserDownload d"
  "navigationFallbacks (snd (resolvePlaywright e d)) = navigationFallbacks d"
  "navigationStrategyUsed (snd (resolvePlaywright e d)) = navigationStrategyUsed d"
  "browserAttempts (snd (resolvePlaywright e d)) = browserAttempts d"
  "binaryChecks (snd (resolvePlaywright e d)) = binaryChecks d"
  "installAttempt (snd (resolvePlaywright e d)) = installAttempt d"
  by (simp_all add: resolvePlaywright_def Let_def split: option.split)

lemma resolvePlaywright_result:
  "fst (resolvePlaywright e d) =
     (case importPlaywright e of
        None \<Rightarrow> Inr True
      | Some x \<Rightarrow> if caughtMissingPlaywright x then Inr False else Inl x)"
  by (simp add: resolvePlaywright_def Let_def split: option.split)

lemma detect_frame [simp]:
  "strict (snd (detectBrowserExecutables e k d)) = strict d"
  "ci (snd (detectBrowserExecutables e k d)) = ci d"
  "navigationFallbacks (snd (detectBrowserExecutables e k d)) = navigationFallbacks d"
  "navigationStrategyUsed (snd (detectBrowserExecutables e k d)) = navigationStrategyUsed d"
  by (simp_all add: detectBrowserExecutables_def split: sum.split)

lemma install_frame [simp]:
  "strict (snd (runPlaywrightInstall e w d)) = strict d"
  "ci (snd (runPlaywrightInstall e w d)) = ci d"
  "navigationFallbacks (snd (runPlaywrightInstall e w d)) = navigationFallbacks d"
  "navigationStrategyUsed (snd (runPlaywrightInstall e w d)) = navigationStrategyUsed d"
  by (simp_all add: runPlaywrightInstall_def Let_def)

lemma ensureBrowsers_frame:
  "strict (diag (snd (ensureBrowsers e st))) = strict (diag st)"
  "navigationFallbacks (diag (snd (ensureBrowsers e st))) = navigationFallbacks (diag st)"
  "navigationStrategyUsed (diag (snd (ensureBrowsers e st))) = navigationStrategyUsed (diag st)"
  by (simp_all add: ensureBrowsers_def Let_def split_beta split: sum.split bool.split)

lemma ensureBrowsers_outcome:
  "fresh st \<Longrightarrow>
   (case fst (ensureBrowsers e st) of
      Inl x \<Rightarrow> fresh (snd (ensureBrowsers e st))
    | Inr ready \<Rightarrow> if ready then fresh (snd (ensureBrowsers e st))
                   else concludedOnce (snd (ensureBrowsers e st)))"
  by (simp add: ensureBrowsers_def Let_def split_beta conclude_once split: sum.split bool.split)

lemma initial_fields [simp]:
  "strict (initialDiagnostics e) = (PLAYWRIGHT_STRICT e = Some ''1'')"
  "classification (initialDiagnostics e) = ''unknown''"
  "envSkipBrowserDownload (initialDiagnostics e) =
     (PLAYWRIGHT_SKIP_BROWSER_DOWNLOAD e = Some ''1'' \<or> PLAYWRIGHT_SKIP_BROWSER_DOWNLOAD e = Some ''true'')"
  "navigationFallbacks (initialDiagnostics e) = []"
  "navigationStrategyUsed (initialDiagnostics e) = None"
  "browserAttempts (initialDiagnostics e) = []"
  "binaryChecks (initialDiagnostics e) = None"
  "installAttempt (initialDiagnostics e) = None"
  "diag (initialRun e) = initialDiagnostics e"
  by (simp_all add: initialDiagnostics_def initialRun_def)

lemma beforeServer_frame:
  "strict (diag (snd (beforeServer e))) = (PLAYWRIGHT_STRICT e = Some ''1'')"
  "navigationFallbacks (diag (snd (beforeServer e))) = []"
  "navigationStrategyUsed (diag (snd (beforeServer e))) = None"
  by (simp_all add: beforeServer_def Let_def split_beta ensureBrowsers_frame
      split: sum.split bool.split)

lemma beforeServer_outcome:
  "(case fst (beforeServer e) of
      Inl x \<Rightarrow> fresh (snd (beforeServer e))
    | Inr ready \<Rightarrow> if ready then fresh (snd (beforeServer e))
                   else concludedOnce (snd (beforeServer e)))"
proof -
  let ?st = "with_diag (initialRun e) (snd (resolvePlaywright e (diag (initialRun e))))"
  have "fresh ?st" by simp
  from ensureBrowsers_outcome [OF this, of e] show ?thesis
    by (auto simp add: beforeServer_def Let_def split_beta conclude_once
        split: sum.splits bool.splits)
qed

lemma startServer_frame [simp]:
  "strict (snd (startServer e d)) = strict d"
  "navigationFallbacks (snd (startServer e d)) = navigationFallbacks d"
  "navigationStrategyUsed (snd (startServer e d)) = navigationStrategyUsed d"
  by (simp_all add: startServer_def Let_def split: option.split)

lemma tryBody_strict:
  "strict (diag (snd (tryBody e h st))) = strict (diag st)"
  by (simp add: tryBody_def Let_def split_beta runAppScreenshot_frame
      split: option.split sum.split)

lemma tryBody_outcome:
  "fresh st \<Longrightarrow>
   (case fst (tryBody e h st) of
      Inl x \<Rightarrow> fresh (snd (tryBody e h st))
    | Inr u \<Rightarrow> concludedOnce (snd (tryBody e h st)))"
  by (simp add: tryBody_def Let_def split_beta conclude_once runAppScreenshot_frame
      split: option.split sum.split)

lemma catchClause_once:
  "fresh st \<Longrightarrow> concludedOnce (catchClause x st)"
  by (simp add: catchClause_def Let_def conclude_once)

lemma finallyClause_guard:
  "finalLine st \<noteq> None \<Longrightarrow> finallyClause st = st"
  by (auto simp add: finallyClause_def)

lemma concludedOnce_final: "concludedOnce st \<Longrightarrow> finalLine st \<noteq> None"
  by (auto simp add: concludedOnce_def split: option.splits)

lemma tryStatement_once:
  assumes "fresh st"
  shows "concludedOnce (tryStatement e h st)"
proof -
  let ?r = "case tryBody e h st of (Inl x, st1) \<Rightarrow> catchClause x st1 | (Inr u, st1) \<Rightarrow> st1"
  have "concludedOnce ?r"
    using tryBody_outcome [OF assms, of e h]
    by (auto simp add: split_beta catchClause_once split: sum.splits)
  then show ?thesis
    by (simp add: tryStatement_def finallyClause_guard concludedOnce_final)
qed

lemma main_outcome:
  "(case fst (main e) of
      Inl x \<Rightarrow> fresh (snd (main e))
    | Inr u \<Rightarrow> concludedOnce (snd (main e)))"
  using beforeServer_outcome [of e]
  by (auto simp add: main_def split_beta tryStatement_once split: sum.splits bool.splits)

lemma tryStatement_strict:
  "strict (diag (tryStatement e h st)) = strict (diag st)"
proof -
  have c: "\<And>x s. strict (diag (catchClause x s)) = strict (diag s)"
    by (simp add: catchClause_def Let_def)
  have f: "\<And>s. strict (diag (finallyClause s)) = strict (diag s)"
    by (simp add: finallyClause_def)
  show ?thesis
    using tryBody_strict [of e h st]
    by (simp add: tryStatement_def f c split_beta split: sum.split)
qed

lemma main_strict:
  "strict (diag (snd (main e))) = (PLAYWRIGHT_STRICT e = Some ''1'')"
  using beforeServer_frame(1) [of e]
  by (simp add: main_def split_beta tryStatement_strict split: sum.split bool.split)

subsection \<open>The classification on the way to the catch clause\<close>

lemma resolve_classification:
  "fst (resolvePlaywright e d) = Inr True \<Longrightarrow>
   classification (snd (resolvePlaywright e d)) = classification d"
  by (simp add: resolvePlaywright_def Let_def split: option.splits if_splits)

lemma detect_classification [simp]:
  "classification (snd (detectBrowserExecutables e k d)) = classification d"
  by (simp add: detectBrowserExecutables_def split: sum.split)

lemma install_classification [simp]:
  "classification (snd (runPlaywrightInstall e w d)) = classification d"
  by (simp add: runPlaywrightInstall_def Let_def)

lemma ensureBrowsers_classification:
  "fst (ensureBrowsers e st) = Inr True \<Longrightarrow>
   classification (diag (snd (ensureBrowsers e st))) = classification (diag st)"
  by (simp add: ensureBrowsers_def Let_def split_beta split: sum.splits bool.splits if_splits)

lemma beforeServer_classification:
  "fst (beforeServer e) = Inr True \<Longrightarrow>
   classification (diag (snd (beforeServer e))) = ''unknown''"
  by (auto simp add: beforeServer_def Let_def split_beta resolve_classification
      ensureBrowsers_classification split: sum.splits bool.splits if_splits)

lemma startServer_classification [simp]:
  "classification (snd (startServer e d)) = classification d"
  by (simp add: startServer_def Let_def split: option.split)

lemma launchLoop_classification:
  "\<forall>n\<in>set names. \<forall>y. launch e n = Some y \<longrightarrow> \<not> caughtMissingBinary y \<Longrightarrow>
   classification (snd (launchLoop e names d)) = classification d"
  by (induction names arbitrary: d) (simp_all add: Let_def split: option.split)

lemma runSanity_classification [simp]:
  "classification (snd (runSanity e d)) = classification d"
  by (simp add: runSanity_def split: option.split)

lemma runAppScreenshot_classification:
  "fst (runAppScreenshot e url d) = Inl x \<Longrightarrow>
   classification (snd (runAppScreenshot e url d)) = classification d
   \<or> classification (snd (runAppScreenshot e url d)) = caughtClass x"
  by (auto simp add: runAppScreenshot_def split_beta split: option.splits sum.splits)

lemma tryBody_classification:
  assumes "fst (tryBody e (Some host) st) = Inl x"
    and "\<forall>n\<in>set (targets e). \<forall>y. launch e n = Some y \<longrightarrow> \<not> caughtMissingBinary y"
  shows "classification (diag (snd (tryBody e (Some host) st))) = classification (diag st)
       \<or> classification (diag (snd (tryBody e (Some host) st))) = caughtClass x"
proof -
  have l: "classification (snd (launchBrowser e (diag st))) = classification (diag st)"
    using assms(2) by (simp add: launchBrowser_def launchLoop_classification)
  show ?thesis
  proof (cases "fst (launchBrowser e (diag st))")
    case None
    with assms(1) show ?thesis by (simp add: tryBody_def Let_def split_beta)
  next
    case (Some name)
    let ?d1 = "(snd (launchBrowser e (diag st)))\<lparr> browserUsed := Some name \<rparr>"
    show ?thesis
    proof (cases "fst (runSanity e ?d1)")
      case (Inl y)
      with Some l show ?thesis by (simp add: tryBody_def Let_def split_beta)
    next
      case (Inr u)
      let ?url = "''http://'' @ host @ '':'' @ port e @ ''/index.html''"
      let ?d2 = "(snd (runSanity e ?d1))\<lparr> baseUrl := Some ?url \<rparr>"
      show ?thesis
      proof (cases "fst (runAppScreenshot e ?url ?d2)")
        case (Inl y)
        with Some Inr assms(1) have xy: "y = x" by (simp add: tryBody_def Let_def split_beta)
        from runAppScreenshot_classification [OF Inl]
        have "classification (snd (runAppScreenshot e ?url ?d2)) = classification (diag st)
            \<or> classification (snd (runAppScreenshot e ?url ?d2)) = caughtClass x"
          using l xy by simp
        with Some Inr Inl show ?thesis by (simp add: tryBody_def Let_def split_beta)
      next
        case (Inr w)
        with Some \<open>fst (runSanity e ?d1) = Inr u\<close> assms(1) show ?thesis
          by (simp add: tryBody_def Let_def split_beta)
      qed
    qed
  qed
qed

lemma catchClause_skipped:
  assumes "c = (if classification (diag st) = ''unknown'' then caughtClass x
                else classification (diag st))"
    and "c = ''binary-installation-failure'' \<or> c = ''browser-runtime-failure''"
  shows "result (diag (catchClause x st)) = ''skipped''
     \<and> exitCode (catchClause x st) = Some (if strict (diag st) then 1 else 0)
     \<and> map ui_smoke (summaryLines (catchClause x st)) = map ui_smoke (summaryLines st) @ [''skipped'']"
  using assms by (auto simp add: catchClause_def Let_def)

lemma catchClause_failed_lines:
  assumes "c = (if classification (diag st) = ''unknown'' then caughtClass x
                else classification (diag st))"
    and "c \<noteq> ''binary-installation-failure''" and "c \<noteq> ''browser-runtime-failure''"
  shows "result (diag (catchClause x st)) = ''failed''
     \<and> exitCode (catchClause x st) = Some 1
     \<and> map ui_smoke (summaryLines (catchClause x st)) = map ui_smoke (summaryLines st) @ [''failed'']"
  using assms by (auto simp add: catchClause_def Let_def)

lemma main_handles:
  assumes "fst (beforeServer e) = Inr True"
    and "fst (startServer e (diag (snd (beforeServer e)))) = Inr sel"
    and "fst (tryBody e sel (tryEntry e)) = Inl x"
  shows "main e = (Inr (), catchClause x (snd (tryBody e sel (tryEntry e))))"
    and "summaryLines (snd (tryBody e sel (tryEntry e))) = []"
    and "strict (diag (snd (tryBody e sel (tryEntry e)))) = (PLAYWRIGHT_STRICT e = Some ''1'')"
proof -
  let ?st = "snd (tryBody e sel (tryEntry e))"
  have fr: "fresh (tryEntry e)"
    using beforeServer_outcome [of e] assms(1) by (simp add: tryEntry_def)
  from tryBody_outcome [OF fr, of e sel] assms(3) have fs: "fresh ?st" by simp
  then show "summaryLines ?st = []" by (simp add: fresh_def)
  have "concludedOnce (catchClause x ?st)" using fs by (rule catchClause_once)
  then have "finalLine (catchClause x ?st) \<noteq> None" by (rule concludedOnce_final)
  then have "finallyClause (catchClause x ?st) = catchClause x ?st" by (rule finallyClause_guard)
  then have "tryStatement e sel (tryEntry e) = catchClause x ?st"
    using assms(3) by (simp add: tryStatement_def split_beta)
  then show "main e = (Inr (), catchClause x ?st)"
    using assms(1,2) by (simp add: main_def split_beta tryEntry_def)
  show "strict (diag ?st) = (PLAYWRIGHT_STRICT e = Some ''1'')"
    by (simp add: tryBody_strict tryEntry_def beforeServer_frame)
qed

section \<open>Properties of a run\<close>

text \<open>
  Claim C5. Whenever \<^verbatim>\<open>main\<close> ends with a conclusion recorded, it is the only summary
  line printed, and \<^verbatim>\<open>process.exitCode\<close> is 0 exactly when its status is \<^verbatim>\<open>passed\<close>, or
  \<^verbatim>\<open>skipped\<close> with \<^verbatim>\<open>PLAYWRIGHT_STRICT\<close> other than \<^verbatim>\<open>1\<close>, and 1 exactly when its status
  is \<^verbatim>\<open>failed\<close>, or \<^verbatim>\<open>skipped\<close> with \<^verbatim>\<open>PLAYWRIGHT_STRICT=1\<close>.
\<close>

theorem exit_code_matches_status:
  assumes "finalLine (snd (main e)) = Some line"
  shows "\<exists>k. exitCode (snd (main e)) = Some k
           \<and> (k = 0 \<longleftrightarrow> ui_smoke line = ''passed''
                        \<or> (ui_smoke line = ''skipped'' \<and> PLAYWRIGHT_STRICT e \<noteq> Some ''1''))
           \<and> (k = 1 \<longleftrightarrow> ui_smoke line = ''failed''
                        \<or> (ui_smoke line = ''skipped'' \<and> PLAYWRIGHT_STRICT e = Some ''1''))
           \<and> result (diag (snd (main e))) = ui_smoke line
           \<and> summaryLines (snd (main e)) = [line]"
proof -
  have "concludedOnce (snd (main e))"
    using main_outcome [of e] assms by (auto simp add: fresh_def split: sum.splits)
  with assms show ?thesis
    by (auto simp add: concludedOnce_def exitMatches_def main_strict split: option.splits)
qed

theorem exit_code_matches_status_witness:
  "finalLine (snd (main skipEnv)) =
     Some \<lparr> ui_smoke = ''skipped'', line_classification = ''binary-installation-blocked'',
            action = ''npx playwright install'',
            details = [(''reason'', DStr ''PLAYWRIGHT_SKIP_BROWSER_DOWNLOAD''),
                       (''attempted'', DNull), (''missingBrowsers'', DMissing [])] \<rparr>
   \<and> PLAYWRIGHT_STRICT skipEnv = Some ''1''
   \<and> exitCode (snd (main skipEnv)) = Some 1"
proof -
  let ?l = "\<lparr> ui_smoke = ''skipped'', line_classification = ''binary-installation-blocked'',
            action = ''npx playwright install'',
            details = [(''reason'', DStr ''PLAYWRIGHT_SKIP_BROWSER_DOWNLOAD''),
                       (''attempted'', DNull), (''missingBrowsers'', DMissing [])] \<rparr>"
  have h: "finalLine (snd (main skipEnv)) = Some ?l" by code_simp
  have s: "PLAYWRIGHT_STRICT skipEnv = Some ''1''" by code_simp
  from exit_code_matches_status [OF h] s
  have "exitCode (snd (main skipEnv)) = Some 1" by auto
  with h s show ?thesis by blast
qed




text \<open>
  Claim C6, as stated, fails: with \<^verbatim>\<open>PLAYWRIGHT_SKIP_BROWSER_DOWNLOAD=1\<close>, strict mode
  unset and the package missing, the run concludes \<^verbatim>\<open>failed\<close> with exit code 1: the
  engine is resolved before the flag is looked at.
\<close>

theorem skip_flag_with_missing_package:
  "PLAYWRIGHT_SKIP_BROWSER_DOWNLOAD skipWithoutPackageEnv = Some ''1''
   \<and> PLAYWRIGHT_STRICT skipWithoutPackageEnv = None
   \<and> result (diag (snd (main skipWithoutPackageEnv))) = ''failed''
   \<and> exitCode (snd (main skipWithoutPackageEnv)) = Some 1"
  by code_simp

text \<open>
  Claim C6, amended. Whenever \<^verbatim>\<open>PLAYWRIGHT_SKIP_BROWSER_DOWNLOAD\<close> is \<^verbatim>\<open>1\<close> or \<^verbatim>\<open>true\<close>
  and the import of the engine succeeds, the run concludes \<^verbatim>\<open>skipped\<close>, with exit code
  1 in strict mode and 0 otherwise, and no browser is looked for, installed or launched.
\<close>

theorem skip_flag_skips:
  assumes "PLAYWRIGHT_SKIP_BROWSER_DOWNLOAD e = Some ''1''
           \<or> PLAYWRIGHT_SKIP_BROWSER_DOWNLOAD e = Some ''true''"
    and "importPlaywright e = None"
  shows "fst (main e) = Inr ()
     \<and> result (diag (snd (main e))) = ''skipped''
     \<and> map ui_smoke (summaryLines (snd (main e))) = [''skipped'']
     \<and> exitCode (snd (main e)) = Some (if PLAYWRIGHT_STRICT e = Some ''1'' then 1 else 0)
     \<and> browserAttempts (diag (snd (main e))) = []
     \<and> binaryChecks (diag (snd (main e))) = None
     \<and> installAttempt (diag (snd (main e))) = None"
  using assms
  by (simp add: main_def beforeServer_def Let_def split_beta resolvePlaywright_result
      initialRun_def)

theorem skip_flag_skips_witness:
  "(PLAYWRIGHT_SKIP_BROWSER_DOWNLOAD skipEnv = Some ''1''
     \<or> PLAYWRIGHT_SKIP_BROWSER_DOWNLOAD skipEnv = Some ''true'')
   \<and> importPlaywright skipEnv = None
   \<and> result (diag (snd (main skipEnv))) = ''skipped''
   \<and> exitCode (snd (main skipEnv)) = Some 1
   \<and> browserAttempts (diag (snd (main skipEnv))) = []"
proof -
  have f: "PLAYWRIGHT_SKIP_BROWSER_DOWNLOAD skipEnv = Some ''1''
     \<or> PLAYWRIGHT_SKIP_BROWSER_DOWNLOAD skipEnv = Some ''true''" by code_simp
  have i: "importPlaywright skipEnv = None" by code_simp
  have s: "PLAYWRIGHT_STRICT skipEnv = Some ''1''" by code_simp
  from skip_flag_skips [OF f i] s
  have "result (diag (snd (main skipEnv))) = ''skipped''
   \<and> exitCode (snd (main skipEnv)) = Some 1
   \<and> browserAttempts (diag (snd (main skipEnv))) = []" by simp
  with f i show ?thesis by blast
qed

text \<open>
  Claim C1, as stated, fails: when no host becomes reachable the classification recorded
  by the conclusion, in the diagnostics and in the summary line, is \<^verbatim>\<open>test-failure\<close>.
\<close>

theorem server_unreachable_classification:
  "fst (beforeServer unreachableEnv) = Inr True
   \<and> fst (startServer unreachableEnv (diag (snd (beforeServer unreachableEnv)))) = Inr None
   \<and> result (diag (snd (main unreachableEnv))) = ''failed''
   \<and> exitCode (snd (main unreachableEnv)) = Some 1
   \<and> classification (diag (snd (main unreachableEnv))) = ''test-failure''
   \<and> map line_classification (summaryLines (snd (main unreachableEnv))) = [''test-failure'']"
  by code_simp

lemma catchClause_failed:
  assumes "c = (if classification (diag st) = ''unknown'' then caughtClass x
                else classification (diag st))"
    and "c \<noteq> ''binary-installation-failure''" and "c \<noteq> ''browser-runtime-failure''"
  shows "result (diag (catchClause x st)) = ''failed''
     \<and> classification (diag (catchClause x st)) = ''test-failure''
     \<and> exitCode (catchClause x st) = Some 1
     \<and> (\<exists>dt. finalLine (catchClause x st) =
               Some \<lparr> ui_smoke = ''failed'', line_classification = ''test-failure'',
                      action = ''npx playwright install'', details = dt \<rparr>
             \<and> summaryLines (catchClause x st) = summaryLines st @
               [\<lparr> ui_smoke = ''failed'', line_classification = ''test-failure'',
                  action = ''npx playwright install'', details = dt \<rparr>]
             \<and> map_of dt ''classification'' = Some (DStr c))"
  using assms by (auto simp add: catchClause_def Let_def)

lemma tryStatement_unreachable:
  assumes "fresh st"
  shows "result (diag (tryStatement e None st)) = ''failed''
     \<and> exitCode (tryStatement e None st) = Some 1
     \<and> classification (diag (tryStatement e None st)) = ''test-failure''
     \<and> (\<exists>dt. summaryLines (tryStatement e None st) =
               [\<lparr> ui_smoke = ''failed'', line_classification = ''test-failure'',
                  action = ''npx playwright install'', details = dt \<rparr>]
             \<and> map_of dt ''classification'' = Some (DStr ''connectivity-failure''))"
proof -
  let ?st1 = "with_diag st ((diag st)\<lparr> classification := ''connectivity-failure'',
                                      result := ''failed'' \<rparr>)"
  have b: "tryBody e None st = (Inl (serverError e), ?st1)"
    by (simp add: tryBody_def)
  have c: "result (diag (catchClause (serverError e) ?st1)) = ''failed''
     \<and> classification (diag (catchClause (serverError e) ?st1)) = ''test-failure''
     \<and> exitCode (catchClause (serverError e) ?st1) = Some 1
     \<and> (\<exists>dt. finalLine (catchClause (serverError e) ?st1) =
               Some \<lparr> ui_smoke = ''failed'', line_classification = ''test-failure'',
                      action = ''npx playwright install'', details = dt \<rparr>
             \<and> summaryLines (catchClause (serverError e) ?st1) = summaryLines ?st1 @
               [\<lparr> ui_smoke = ''failed'', line_classification = ''test-failure'',
                  action = ''npx playwright install'', details = dt \<rparr>]
             \<and> map_of dt ''classification'' = Some (DStr ''connectivity-failure''))"
    by (rule catchClause_failed) simp_all
  then have f: "finalLine (catchClause (serverError e) ?st1) \<noteq> None" by auto
  have t: "tryStatement e None st = catchClause (serverError e) ?st1"
    by (simp add: tryStatement_def b finallyClause_guard [OF f])
  from assms have s: "summaryLines ?st1 = []" by (simp add: fresh_def)
  from c s show ?thesis unfolding t by auto
qed

text \<open>
  Claim C1, amended. If \<^verbatim>\<open>main\<close> reaches the start of the server and \<^verbatim>\<open>selectedHost\<close> is
  null, the run concludes with status \<^verbatim>\<open>failed\<close> and exit code 1; the classification
  recorded is \<^verbatim>\<open>test-failure\<close>, and \<^verbatim>\<open>connectivity-failure\<close> is reported as
  \<^verbatim>\<open>details.classification\<close> of the one summary line.
\<close>

theorem server_unreachable_fails:
  assumes "fst (beforeServer e) = Inr True"
    and "fst (startServer e (diag (snd (beforeServer e)))) = Inr None"
  shows "fst (main e) = Inr ()
     \<and> result (diag (snd (main e))) = ''failed''
     \<and> exitCode (snd (main e)) = Some 1
     \<and> classification (diag (snd (main e))) = ''test-failure''
     \<and> (\<exists>dt. summaryLines (snd (main e)) =
               [\<lparr> ui_smoke = ''failed'', line_classification = ''test-failure'',
                  action = ''npx playwright install'', details = dt \<rparr>]
             \<and> map_of dt ''classification'' = Some (DStr ''connectivity-failure''))"
proof -
  let ?st = "snd (beforeServer e)"
  let ?d = "snd (startServer e (diag ?st))"
  have fr: "fresh (with_diag ?st ?d)"
    using beforeServer_outcome [of e] assms(1) by simp
  have m: "main e = (Inr (), tryStatement e None (with_diag ?st ?d))"
    using assms by (simp add: main_def split_beta)
  show ?thesis
    unfolding m using tryStatement_unreachable [OF fr, of e] by simp
qed

theorem server_unreachable_fails_witness:
  "fst (beforeServer unreachableEnv) = Inr True
   \<and> fst (startServer unreachableEnv (diag (snd (beforeServer unreachableEnv)))) = Inr None
   \<and> fst (main unreachableEnv) = Inr ()
   \<and> result (diag (snd (main unreachableEnv))) = ''failed''
   \<and> exitCode (snd (main unreachableEnv)) = Some 1"
proof -
  have a: "fst (beforeServer unreachableEnv) = Inr True" by code_simp
  have b: "fst (startServer unreachableEnv (diag (snd (beforeServer unreachableEnv)))) = Inr None"
    by code_simp
  from server_unreachable_fails [OF a b]
  have "fst (main unreachableEnv) = Inr ()
   \<and> result (diag (snd (main unreachableEnv))) = ''failed''
   \<and> exitCode (snd (main unreachableEnv)) = Some 1" by blast
  with a b show ?thesis by blast
qed

text \<open>
  Claim C2, as stated, fails: an error classified \<^verbatim>\<open>connectivity-failure\<close> that reaches
  the \<^verbatim>\<open>catch\<close> clause outside strict mode concludes the run \<^verbatim>\<open>failed\<close> with exit code 1.
\<close>

theorem connectivity_error_fails_run:
  "classifyFailure (of_thrown timeoutError) = Inr ''connectivity-failure''
   \<and> fst (tryBody timeoutEnv (Some ''127.0.0.1'') (initialRun timeoutEnv)) = Inl timeoutError
   \<and> PLAYWRIGHT_STRICT timeoutEnv = None
   \<and> result (diag (snd (main timeoutEnv))) = ''failed''
   \<and> map ui_smoke (summaryLines (snd (main timeoutEnv))) = [''failed'']
   \<and> exitCode (snd (main timeoutEnv)) = Some 1"
  by code_simp

text \<open>
  Claim C2, amended. Take a run in which an error \<open>x\<close> thrown in the \<^verbatim>\<open>try\<close> body
  reaches the \<^verbatim>\<open>catch\<close> clause. The error for an unreachable server arrives classified
  \<^verbatim>\<open>connectivity-failure\<close> and the run concludes \<^verbatim>\<open>failed\<close> with exit code 1. Any other
  error arrives with the diagnostics holding no classification or its own (that of
  \<^verbatim>\<open>classifyFailure\<close>) whenever no browser candidate failed to launch for a missing
  executable; then, if its own classification is \<^verbatim>\<open>binary-installation-failure\<close> or
  \<^verbatim>\<open>browser-runtime-failure\<close>, the run concludes \<^verbatim>\<open>skipped\<close>, with exit code 1 only in
  strict mode, and if it is \<^verbatim>\<open>connectivity-failure\<close> or \<^verbatim>\<open>application-failure\<close> the run
  concludes \<^verbatim>\<open>failed\<close> with exit code 1 in either mode. Nothing is stated for an error
  that arrives while the diagnostics hold the classification of an earlier failed launch.
\<close>

theorem handled_error_policy:
  assumes "fst (beforeServer e) = Inr True"
    and "fst (startServer e (diag (snd (beforeServer e)))) = Inr sel"
    and "fst (tryBody e sel (tryEntry e)) = Inl x"
  shows "classifyFailure (of_thrown x) = Inr (caughtClass x)
     \<and> caughtClass x \<in> {''binary-installation-failure'', ''connectivity-failure'',
                         ''browser-runtime-failure'', ''application-failure''}
     \<and> (sel = None \<longrightarrow>
          classification (diag (snd (tryBody e sel (tryEntry e)))) = ''connectivity-failure''
        \<and> fst (main e) = Inr ()
        \<and> result (diag (snd (main e))) = ''failed''
        \<and> map ui_smoke (summaryLines (snd (main e))) = [''failed'']
        \<and> exitCode (snd (main e)) = Some 1)
     \<and> (sel \<noteq> None
          \<and> (\<forall>n\<in>set (targets e). \<forall>y. launch e n = Some y \<longrightarrow> \<not> caughtMissingBinary y) \<longrightarrow>
          classification (diag (snd (tryBody e sel (tryEntry e)))) = ''unknown''
        \<or> classification (diag (snd (tryBody e sel (tryEntry e)))) = caughtClass x)
     \<and> (sel \<noteq> None
          \<and> (classification (diag (snd (tryBody e sel (tryEntry e)))) = ''unknown''
             \<or> classification (diag (snd (tryBody e sel (tryEntry e)))) = caughtClass x) \<longrightarrow>
          (caughtClass x = ''binary-installation-failure''
             \<or> caughtClass x = ''browser-runtime-failure'' \<longrightarrow>
             fst (main e) = Inr ()
           \<and> result (diag (snd (main e))) = ''skipped''
           \<and> map ui_smoke (summaryLines (snd (main e))) = [''skipped'']
           \<and> exitCode (snd (main e)) = Some (if PLAYWRIGHT_STRICT e = Some ''1'' then 1 else 0))
        \<and> (caughtClass x = ''connectivity-failure''
             \<or> caughtClass x = ''application-failure'' \<longrightarrow>
             fst (main e) = Inr ()
           \<and> result (diag (snd (main e))) = ''failed''
           \<and> map ui_smoke (summaryLines (snd (main e))) = [''failed'']
           \<and> exitCode (snd (main e)) = Some 1))"
proof -
  let ?st = "snd (tryBody e sel (tryEntry e))"
  note m = main_handles [OF assms]
  have a: "classifyFailure (of_thrown x) = Inr (caughtClass x)" by (rule caught_total)
  have b: "caughtClass x \<in> {''binary-installation-failure'', ''connectivity-failure'',
                         ''browser-runtime-failure'', ''application-failure''}"
    by (rule caughtClass_range)
  have c: "sel = None \<longrightarrow>
          classification (diag ?st) = ''connectivity-failure''
        \<and> fst (main e) = Inr ()
        \<and> result (diag (snd (main e))) = ''failed''
        \<and> map ui_smoke (summaryLines (snd (main e))) = [''failed'']
        \<and> exitCode (snd (main e)) = Some 1"
  proof
    assume n: "sel = None"
    have k: "classification (diag ?st) = ''connectivity-failure''"
      by (simp add: n tryBody_def)
    from catchClause_failed_lines [of "''connectivity-failure''" ?st x] k
    show "classification (diag ?st) = ''connectivity-failure''
        \<and> fst (main e) = Inr ()
        \<and> result (diag (snd (main e))) = ''failed''
        \<and> map ui_smoke (summaryLines (snd (main e))) = [''failed'']
        \<and> exitCode (snd (main e)) = Some 1"
      by (simp add: m)
  qed
  have d: "sel \<noteq> None
          \<and> (\<forall>n\<in>set (targets e). \<forall>y. launch e n = Some y \<longrightarrow> \<not> caughtMissingBinary y) \<longrightarrow>
          classification (diag ?st) = ''unknown'' \<or> classification (diag ?st) = caughtClass x"
  proof
    assume h: "sel \<noteq> None
          \<and> (\<forall>n\<in>set (targets e). \<forall>y. launch e n = Some y \<longrightarrow> \<not> caughtMissingBinary y)"
    then obtain host where s: "sel = Some host" by auto
    have u: "classification (diag (tryEntry e)) = ''unknown''"
      using assms(1) by (simp add: tryEntry_def beforeServer_classification)
    from tryBody_classification [of e host "tryEntry e" x] assms(3) h s u
    show "classification (diag ?st) = ''unknown'' \<or> classification (diag ?st) = caughtClass x"
      by auto
  qed
  have f: "sel \<noteq> None
          \<and> (classification (diag ?st) = ''unknown''
             \<or> classification (diag ?st) = caughtClass x) \<longrightarrow>
          (caughtClass x = ''binary-installation-failure''
             \<or> caughtClass x = ''browser-runtime-failure'' \<longrightarrow>
             fst (main e) = Inr ()
           \<and> result (diag (snd (main e))) = ''skipped''
           \<and> map ui_smoke (summaryLines (snd (main e))) = [''skipped'']
           \<and> exitCode (snd (main e)) = Some (if PLAYWRIGHT_STRICT e = Some ''1'' then 1 else 0))
        \<and> (caughtClass x = ''connectivity-failure''
             \<or> caughtClass x = ''application-failure'' \<longrightarrow>
             fst (main e) = Inr ()
           \<and> result (diag (snd (main e))) = ''failed''
           \<and> map ui_smoke (summaryLines (snd (main e))) = [''failed'']
           \<and> exitCode (snd (main e)) = Some 1)"
  proof
    assume h: "sel \<noteq> None
          \<and> (classification (diag ?st) = ''unknown''
             \<or> classification (diag ?st) = caughtClass x)"
    then have own: "caughtClass x = (if classification (diag ?st) = ''unknown'' then caughtClass x
                else classification (diag ?st))" by auto
    have p: "caughtClass x = ''binary-installation-failure''
             \<or> caughtClass x = ''browser-runtime-failure'' \<longrightarrow>
             fst (main e) = Inr ()
           \<and> result (diag (snd (main e))) = ''skipped''
           \<and> map ui_smoke (summaryLines (snd (main e))) = [''skipped'']
           \<and> exitCode (snd (main e)) = Some (if PLAYWRIGHT_STRICT e = Some ''1'' then 1 else 0)"
    proof
      assume "caughtClass x = ''binary-installation-failure''
             \<or> caughtClass x = ''browser-runtime-failure''"
      from catchClause_skipped [OF own this]
      show "fst (main e) = Inr ()
           \<and> result (diag (snd (main e))) = ''skipped''
           \<and> map ui_smoke (summaryLines (snd (main e))) = [''skipped'']
           \<and> exitCode (snd (main e)) = Some (if PLAYWRIGHT_STRICT e = Some ''1'' then 1 else 0)"
        by (simp add: m)
    qed
    have q: "caughtClass x = ''connectivity-failure''
             \<or> caughtClass x = ''application-failure'' \<longrightarrow>
             fst (main e) = Inr ()
           \<and> result (diag (snd (main e))) = ''failed''
           \<and> map ui_smoke (summaryLines (snd (main e))) = [''failed'']
           \<and> exitCode (snd (main e)) = Some 1"
    proof
      assume "caughtClass x = ''connectivity-failure''
             \<or> caughtClass x = ''application-failure''"
      then have "caughtClass x \<noteq> ''binary-installation-failure''"
        and "caughtClass x \<noteq> ''browser-runtime-failure''" by auto
      from catchClause_failed_lines [OF own this]
      show "fst (main e) = Inr ()
           \<and> result (diag (snd (main e))) = ''failed''
           \<and> map ui_smoke (summaryLines (snd (main e))) = [''failed'']
           \<and> exitCode (snd (main e)) = Some 1"
        by (simp add: m)
    qed
    from p q show "(caughtClass x = ''binary-installation-failure''
             \<or> caughtClass x = ''browser-runtime-failure'' \<longrightarrow>
             fst (main e) = Inr ()
           \<and> result (diag (snd (main e))) = ''skipped''
           \<and> map ui_smoke (summaryLines (snd (main e))) = [''skipped'']
           \<and> exitCode (snd (main e)) = Some (if PLAYWRIGHT_STRICT e = Some ''1'' then 1 else 0))
        \<and> (caughtClass x = ''connectivity-failure''
             \<or> caughtClass x = ''application-failure'' \<longrightarrow>
             fst (main e) = Inr ()
           \<and> result (diag (snd (main e))) = ''failed''
           \<and> map ui_smoke (summaryLines (snd (main e))) = [''failed'']
           \<and> exitCode (snd (main e)) = Some 1)" by blast
  qed
  from a b c d f show ?thesis by blast
qed

theorem handled_error_policy_witness:
  "fst (beforeServer crashEnv) = Inr True
   \<and> fst (startServer crashEnv (diag (snd (beforeServer crashEnv)))) = Inr (Some ''127.0.0.1'')
   \<and> fst (tryBody crashEnv (Some ''127.0.0.1'') (tryEntry crashEnv)) = Inl crashError
   \<and> caughtClass crashError = ''browser-runtime-failure''
   \<and> PLAYWRIGHT_STRICT crashEnv = None
   \<and> result (diag (snd (main crashEnv))) = ''skipped''
   \<and> exitCode (snd (main crashEnv)) = Some 0
   \<and> fst (beforeServer timeoutEnv) = Inr True
   \<and> fst (startServer timeoutEnv (diag (snd (beforeServer timeoutEnv)))) = Inr (Some ''127.0.0.1'')
   \<and> fst (tryBody timeoutEnv (Some ''127.0.0.1'') (tryEntry timeoutEnv)) = Inl timeoutError
   \<and> caughtClass timeoutError = ''connectivity-failure''
   \<and> result (diag (snd (main timeoutEnv))) = ''failed''
   \<and> exitCode (snd (main timeoutEnv)) = Some 1"
proof -
  have a1: "fst (beforeServer crashEnv) = Inr True" by code_simp
  have a2: "fst (startServer crashEnv (diag (snd (beforeServer crashEnv)))) = Inr (Some ''127.0.0.1'')"
    by code_simp
  have a3: "fst (tryBody crashEnv (Some ''127.0.0.1'') (tryEntry crashEnv)) = Inl crashError"
    by code_simp
  have a4: "caughtClass crashError = ''browser-runtime-failure''" by code_simp
  have a5: "PLAYWRIGHT_STRICT crashEnv = None" by code_simp
  have a6: "\<forall>n\<in>set (targets crashEnv). \<forall>y. launch crashEnv n = Some y \<longrightarrow> \<not> caughtMissingBinary y"
    by (simp add: crashEnv_def okEnv_def)
  from handled_error_policy [OF a1 a2 a3] a4 a5 a6
  have r1: "result (diag (snd (main crashEnv))) = ''skipped''
     \<and> exitCode (snd (main crashEnv)) = Some 0"
    by auto
  have b1: "fst (beforeServer timeoutEnv) = Inr True" by code_simp
  have b2: "fst (startServer timeoutEnv (diag (snd (beforeServer timeoutEnv)))) = Inr (Some ''127.0.0.1'')"
    by code_simp
  have b3: "fst (tryBody timeoutEnv (Some ''127.0.0.1'') (tryEntry timeoutEnv)) = Inl timeoutError"
    by code_simp
  have b4: "caughtClass timeoutError = ''connectivity-failure''" by code_simp
  have b6: "\<forall>n\<in>set (targets timeoutEnv). \<forall>y. launch timeoutEnv n = Some y \<longrightarrow> \<not> caughtMissingBinary y"
    by (simp add: timeoutEnv_def okEnv_def)
  from handled_error_policy [OF b1 b2 b3] b4 b6
  have r2: "result (diag (snd (main timeoutEnv))) = ''failed''
     \<and> exitCode (snd (main timeoutEnv)) = Some 1"
    by auto
  from a1 a2 a3 a4 a5 r1 b1 b2 b3 b4 r2 show ?thesis by blast
qed

text \<open>
  The case left out above: \<^verbatim>\<open>launchBrowser\<close> records \<^verbatim>\<open>binary-installation-failure\<close> for
  a candidate that fails, a later candidate launches, and the \<^verbatim>\<open>catch\<close> clause keeps the
  recorded classification for an error of its own class \<^verbatim>\<open>application-failure\<close>, where
  \<^verbatim>\<open>runAppScreenshot\<close> would have classified the error itself.
\<close>

lemma stale_launch_classification:
  "fst (tryBody staleEnv (Some ''127.0.0.1'') (tryEntry staleEnv)) = Inl clickError
   \<and> caughtClass clickError = ''application-failure''
   \<and> classification (diag (snd (tryBody staleEnv (Some ''127.0.0.1'') (tryEntry staleEnv))))
       = ''binary-installation-failure''
   \<and> browserUsed (diag (snd (main staleEnv))) = Some ''webkit''
   \<and> PLAYWRIGHT_STRICT staleEnv = None
   \<and> result (diag (snd (main staleEnv))) = ''skipped''
   \<and> exitCode (snd (main staleEnv)) = Some 0"
  by code_simp

lemma runAppScreenshot_safe:
  assumes "UI_SMOKE_ALLOW_HTTP e \<noteq> Some ''1''"
    and "navigationFallbacks d = []" and "navigationStrategyUsed d = None"
  shows "navigationSafe (snd (runAppScreenshot e url d))"
  using runAppScreenshot_frame(2) [OF assms(1), of url d]
    runAppScreenshot_frame(3) [OF assms(1), of url d] assms(2,3)
  by (auto simp add: navigationSafe_def)

lemma tryBody_safe:
  assumes "UI_SMOKE_ALLOW_HTTP e \<noteq> Some ''1''"
    and "navigationFallbacks (diag st) = []" and "navigationStrategyUsed (diag st) = None"
  shows "navigationSafe (diag (snd (tryBody e h st)))"
proof -
  have n: "\<And>d. navigationFallbacks d = [] \<Longrightarrow> navigationStrategyUsed d = None \<Longrightarrow> navigationSafe d"
    by (simp add: navigationSafe_def)
  have c: "\<And>s c dt k s'. navigationSafe (diag (conclude s c dt k s')) = navigationSafe (diag s')"
    by (simp add: navigationSafe_def)
  show ?thesis
    using assms
    by (simp add: tryBody_def Let_def split_beta n c runAppScreenshot_safe
        split: option.split sum.split)
qed

lemma catchClause_safe:
  "navigationSafe (diag (catchClause x st)) = navigationSafe (diag st)"
  by (simp add: catchClause_def Let_def navigationSafe_def)

lemma finallyClause_safe:
  "navigationSafe (diag (finallyClause st)) = navigationSafe (diag st)"
  by (simp add: finallyClause_def navigationSafe_def)

lemma tryStatement_safe:
  assumes "UI_SMOKE_ALLOW_HTTP e \<noteq> Some ''1''"
    and "navigationFallbacks (diag st) = []" and "navigationStrategyUsed (diag st) = None"
  shows "navigationSafe (diag (tryStatement e h st))"
  using tryBody_safe [OF assms, of h]
  by (simp add: tryStatement_def finallyClause_safe catchClause_safe split_beta split: sum.split)

lemma main_safe:
  assumes "UI_SMOKE_ALLOW_HTTP e \<noteq> Some ''1''"
  shows "navigationSafe (diag (snd (main e)))"
proof -
  have n: "navigationSafe (diag (snd (beforeServer e)))"
    by (simp add: navigationSafe_def beforeServer_frame)
  have s: "\<And>d. navigationSafe (snd (startServer e d)) = navigationSafe d"
    by (simp add: navigationSafe_def)
  show ?thesis
    using n beforeServer_frame(2,3) [of e]
    by (simp add: main_def split_beta s tryStatement_safe [OF assms] split: sum.split bool.split)
qed

text \<open>
  Claim C7. When \<^verbatim>\<open>UI_SMOKE_ALLOW_HTTP\<close> is not \<^verbatim>\<open>1\<close>, the first fallback that
  \<^verbatim>\<open>navigateWithFallback\<close> records is from HTTP to FILE with the fixed reason, and it
  never sets \<^verbatim>\<open>navigationStrategyUsed\<close> to HTTP; at the end of every such run of
  \<^verbatim>\<open>main\<close> the strategy used is not HTTP and the first fallback recorded, if the run
  came to navigate, is that one.
\<close>

theorem http_disabled_first_fallback:
  assumes "UI_SMOKE_ALLOW_HTTP e \<noteq> Some ''1''"
  shows "(\<exists>rest. navigationFallbacks (snd (navigateWithFallback e url d))
                 = navigationFallbacks d @ (''HTTP'', ''FILE'', disabledReason) # rest)
     \<and> (navigationStrategyUsed d \<noteq> Some ''HTTP'' \<longrightarrow>
          navigationStrategyUsed (snd (navigateWithFallback e url d)) \<noteq> Some ''HTTP'')
     \<and> navigationStrategyUsed (diag (snd (main e))) \<noteq> Some ''HTTP''
     \<and> (case navigationFallbacks (diag (snd (main e))) of
          [] \<Rightarrow> True
        | f # rest \<Rightarrow> f = (''HTTP'', ''FILE'', disabledReason))"
proof -
  have a: "\<exists>rest. navigationFallbacks (snd (navigateWithFallback e url d))
                 = navigationFallbacks d @ (''HTTP'', ''FILE'', disabledReason) # rest"
    by (rule navigateWithFallback_disabled(1) [OF assms])
  have b: "navigationStrategyUsed d \<noteq> Some ''HTTP'' \<longrightarrow>
          navigationStrategyUsed (snd (navigateWithFallback e url d)) \<noteq> Some ''HTTP''"
    using navigateWithFallback_disabled(2) [OF assms, of url d] by auto
  from main_safe [OF assms] a b show ?thesis
    by (simp add: navigationSafe_def)
qed

theorem http_disabled_first_fallback_witness:
  "UI_SMOKE_ALLOW_HTTP okEnv \<noteq> Some ''1''
   \<and> navigationFallbacks (diag (snd (main okEnv))) = [(''HTTP'', ''FILE'', disabledReason)]
   \<and> navigationStrategyUsed (diag (snd (main okEnv))) \<noteq> Some ''HTTP''"
proof -
  have h: "UI_SMOKE_ALLOW_HTTP okEnv \<noteq> Some ''1''" by code_simp
  have f: "navigationFallbacks (diag (snd (main okEnv))) = [(''HTTP'', ''FILE'', disabledReason)]"
    by code_simp
  from http_disabled_first_fallback [OF h]
  have "navigationStrategyUsed (diag (snd (main okEnv))) \<noteq> Some ''HTTP''" by blast
  with h f show ?thesis by blast
qed

lemma gotoWithRetry_three_failures:
  "goto e url 1 = Some a \<Longrightarrow> goto e url 2 = Some b \<Longrightarrow> goto e url 3 = Some x \<Longrightarrow>
   fst (gotoWithRetry e url 3 d) = Inl x"
  by (simp add: gotoWithRetry_def numeral_3_eq_3 Let_def numeral_2_eq_2)

lemma tryInlineStrategy_attempts:
  "\<exists>rest. navigationStrategyAttempts (snd (tryInlineStrategy e d))
           = navigationStrategyAttempts d @ rest"
  by (simp add: tryInlineStrategy_def Let_def split: option.split)

lemma fileThenInline_attempts:
  "\<exists>rest. navigationStrategyAttempts (snd (fileThenInline e d))
           = navigationStrategyAttempts d @ (''FILE'', fileUrl e) # rest"
proof -
  have f: "navigationStrategyAttempts (snd (tryFileStrategy e d))
             = navigationStrategyAttempts d @ [(''FILE'', fileUrl e)]"
    by (simp add: tryFileStrategy_def split_beta split: sum.split)
  show ?thesis
  proof (cases "fst (tryFileStrategy e d)")
    case (Inr u)
    then show ?thesis by (simp add: fileThenInline_def split_beta f)
  next
    case (Inl y)
    let ?d = "(snd (tryFileStrategy e d))\<lparr> navigationFallbacks :=
                 navigationFallbacks (snd (tryFileStrategy e d)) @ [(''FILE'', ''INLINE'', caughtText y)] \<rparr>"
    from tryInlineStrategy_attempts [of e ?d] obtain rest where
      "navigationStrategyAttempts (snd (tryInlineStrategy e ?d))
         = navigationStrategyAttempts ?d @ rest" by blast
    with Inl show ?thesis by (simp add: fileThenInline_def split_beta f)
  qed
qed

text \<open>
  Claim C8. With HTTP opted in and all three attempts of the HTTP strategy failing, the
  last with error \<open>x\<close>: if \<^verbatim>\<open>isHttpReachabilityError\<close> rejects \<open>x\<close>, then
  \<^verbatim>\<open>navigateWithFallback\<close> throws \<open>x\<close> itself, the only strategy attempted is HTTP and
  no strategy is marked as used; the FILE strategy is attempted only if
  \<^verbatim>\<open>isHttpReachabilityError\<close> accepts \<open>x\<close>.
\<close>

theorem http_error_propagates:
  assumes "UI_SMOKE_ALLOW_HTTP e = Some ''1''" and "url \<noteq> []"
    and "goto e url 1 = Some a" and "goto e url 2 = Some b" and "goto e url 3 = Some x"
  shows "isHttpReachabilityError (of_thrown x) = Inr (caughtUnreachable x)
     \<and> (\<not> caughtUnreachable x \<longrightarrow>
          fst (navigateWithFallback e url d) = Inl x
        \<and> navigationStrategyAttempts (snd (navigateWithFallback e url d))
            = navigationStrategyAttempts d @ [(''HTTP'', url)]
        \<and> navigationStrategyUsed (snd (navigateWithFallback e url d)) = navigationStrategyUsed d)
     \<and> (caughtUnreachable x \<longrightarrow>
          (\<exists>rest. navigationStrategyAttempts (snd (navigateWithFallback e url d))
                   = navigationStrategyAttempts d @ (''HTTP'', url) # (''FILE'', fileUrl e) # rest))"
proof -
  let ?d0 = "d\<lparr> navigationHttpOptIn := Some True \<rparr>"
  have t: "fst (tryHttpStrategy e url ?d0) = Inl x"
    using gotoWithRetry_three_failures [OF assms(3,4,5)]
    by (simp add: tryHttpStrategy_def split_beta split: sum.split)
  let ?d2 = "(snd (tryHttpStrategy e url ?d0))\<lparr> navigationFallbacks :=
               navigationFallbacks (snd (tryHttpStrategy e url ?d0)) @ [(''HTTP'', ''FILE'', caughtText x)] \<rparr>"
  have n: "navigateWithFallback e url d =
             (if \<not> caughtUnreachable x then (Inl x, ?d2) else fileThenInline e ?d2)"
    using assms(1,2) t by (simp add: navigateWithFallback_def Let_def split_beta)
  have u: "navigationStrategyUsed (snd (tryHttpStrategy e url ?d0)) = navigationStrategyUsed d"
    using tryHttpStrategy_frame(4) [OF t] by simp
  have p: "\<not> caughtUnreachable x \<longrightarrow>
          fst (navigateWithFallback e url d) = Inl x
        \<and> navigationStrategyAttempts (snd (navigateWithFallback e url d))
            = navigationStrategyAttempts d @ [(''HTTP'', url)]
        \<and> navigationStrategyUsed (snd (navigateWithFallback e url d)) = navigationStrategyUsed d"
    by (simp add: n u)
  have q: "caughtUnreachable x \<longrightarrow>
          (\<exists>rest. navigationStrategyAttempts (snd (navigateWithFallback e url d))
                   = navigationStrategyAttempts d @ (''HTTP'', url) # (''FILE'', fileUrl e) # rest)"
    using fileThenInline_attempts [of e ?d2] by (auto simp add: n)
  from p q show ?thesis by (simp add: caught_total)
qed

theorem http_error_propagates_witness:
  "UI_SMOKE_ALLOW_HTTP httpAbortedEnv = Some ''1''
   \<and> goto httpAbortedEnv ''http://127.0.0.1:4173/index.html'' 3 = Some abortedError
   \<and> \<not> caughtUnreachable abortedError
   \<and> fst (navigateWithFallback httpAbortedEnv ''http://127.0.0.1:4173/index.html''
            (initialDiagnostics httpAbortedEnv)) = Inl abortedError
   \<and> navigationStrategyAttempts
        (snd (navigateWithFallback httpAbortedEnv ''http://127.0.0.1:4173/index.html''
               (initialDiagnostics httpAbortedEnv)))
       = [(''HTTP'', ''http://127.0.0.1:4173/index.html'')]"
proof -
  let ?u = "''http://127.0.0.1:4173/index.html''"
  have a: "UI_SMOKE_ALLOW_HTTP httpAbortedEnv = Some ''1''" by code_simp
  have b: "?u \<noteq> []" by simp
  have g1: "goto httpAbortedEnv ?u 1 = Some abortedError" by code_simp
  have g2: "goto httpAbortedEnv ?u 2 = Some abortedError" by code_simp
  have g3: "goto httpAbortedEnv ?u 3 = Some abortedError" by code_simp
  have c: "\<not> caughtUnreachable abortedError" by code_simp
  have i: "navigationStrategyAttempts (initialDiagnostics httpAbortedEnv) = []" by code_simp
  from http_error_propagates [OF a b g1 g2 g3, of "initialDiagnostics httpAbortedEnv"] c i
  have "fst (navigateWithFallback httpAbortedEnv ?u (initialDiagnostics httpAbortedEnv))
          = Inl abortedError
     \<and> navigationStrategyAttempts
        (snd (navigateWithFallback httpAbortedEnv ?u (initialDiagnostics httpAbortedEnv)))
       = [(''HTTP'', ?u)]" by simp
  with a g3 c show ?thesis by blast
qed

end
